theory Spec2Isabelle
  imports Main "HOL-Library.Sublist"
begin

section \<open>Go strings\<close>

text \<open>
  A Go string is modelled as the sequence of its runes (Unicode code points), that is,
  the model covers the strings that hold valid UTF-8. Every pattern the program
  searches for is ASCII, so on such strings the byte-wise functions of package
  \<^verbatim>\<open>strings\<close> act rune by rune. The functions that only compare and copy
  (\<^verbatim>\<open>ReplaceAll\<close> with a non-empty pattern, \<^verbatim>\<open>HasPrefix\<close>, \<^verbatim>\<open>TrimPrefix\<close>,
  \<^verbatim>\<open>TrimSuffix\<close>) are the same functions when the list is read as the bytes of an
  arbitrary string. \<open>str\<close> turns a literal into a Go string. Where a single character
  is written as a number: 32 is the space, 34 the double quote, 39 the single quote,
  45 the hyphen, 46 the period, 47 the slash, 48 the digit zero, 92 the backslash.
\<close>

type_synonym rune = nat
type_synonym gostring = "rune list"

abbreviation str :: "string \<Rightarrow> gostring" where
  "str s \<equiv> map of_char s"

text \<open>
  \<^verbatim>\<open>strings.ReplaceAll(s, old, new)\<close>: the non-overlapping occurrences of \<open>old\<close> are
  replaced from left to right; an empty \<open>old\<close> matches before every rune and at the end.
\<close>

function ReplaceAll :: "gostring \<Rightarrow> gostring \<Rightarrow> gostring \<Rightarrow> gostring" where
  "ReplaceAll s old new =
     (if old = [] then new @ concat (map (\<lambda>c. c # new) s)
      else if s = [] then []
      else if prefix old s then new @ ReplaceAll (drop (length old) s) old new
      else hd s # ReplaceAll (tl s) old new)"
  by pat_completeness auto
termination
  by (relation "measure (\<lambda>(s, old, new). length s)") auto

declare ReplaceAll.simps [simp del]

text \<open>\<^verbatim>\<open>strings.HasPrefix\<close>, \<^verbatim>\<open>strings.TrimPrefix\<close>, \<^verbatim>\<open>strings.TrimSuffix\<close>.\<close>

definition HasPrefix :: "gostring \<Rightarrow> gostring \<Rightarrow> bool" where
  "HasPrefix s p = prefix p s"

definition TrimPrefix :: "gostring \<Rightarrow> gostring \<Rightarrow> gostring" where
  "TrimPrefix s p = (if prefix p s then drop (length p) s else s)"

definition TrimSuffix :: "gostring \<Rightarrow> gostring \<Rightarrow> gostring" where
  "TrimSuffix s x = (if suffix x s then take (length s - length x) s else s)"

text \<open>
  \<^verbatim>\<open>strings.ToLower\<close>. The ASCII letters are folded here; the lower-case mapping of
  the runes from U+0080 on comes from the tables of package \<^verbatim>\<open>unicode\<close>, which are
  not part of the program, and is the parameter \<open>lc\<close>.
\<close>

definition ToLower :: "(rune \<Rightarrow> rune) \<Rightarrow> gostring \<Rightarrow> gostring" where
  "ToLower lc s =
     map (\<lambda>c. if c < 128 then (if 65 \<le> c \<and> c \<le> 90 then c + 32 else c) else lc c) s"

text \<open>
  \<^verbatim>\<open>unicode.IsControl\<close>: the category Cc, U+0000 to U+001F and U+007F to U+009F.
  \<^verbatim>\<open>unicode.IsSpace\<close>: the property White_Space.
\<close>

definition IsControl :: "rune \<Rightarrow> bool" where
  "IsControl r = (r \<le> 0x1F \<or> (0x7F \<le> r \<and> r \<le> 0x9F))"

definition IsSpace :: "rune \<Rightarrow> bool" where
  "IsSpace r =
     ((0x09 \<le> r \<and> r \<le> 0x0D) \<or> r = 0x20 \<or> r = 0x85 \<or> r = 0xA0 \<or> r = 0x1680
      \<or> (0x2000 \<le> r \<and> r \<le> 0x200A) \<or> r = 0x2028 \<or> r = 0x2029 \<or> r = 0x202F
      \<or> r = 0x205F \<or> r = 0x3000)"

text \<open>
  \<^verbatim>\<open>strings.TrimRight(s, cutset)\<close> removes the trailing runes that occur in the
  cutset; \<^verbatim>\<open>strings.TrimSpace\<close> removes the leading and trailing runes for which
  \<^verbatim>\<open>unicode.IsSpace\<close> holds.
\<close>

definition TrimRight :: "gostring \<Rightarrow> gostring \<Rightarrow> gostring" where
  "TrimRight s cutset = rev (dropWhile (\<lambda>c. c \<in> set cutset) (rev s))"

definition TrimSpace :: "gostring \<Rightarrow> gostring" where
  "TrimSpace s = rev (dropWhile IsSpace (rev (dropWhile IsSpace s)))"

text \<open>
  The regular expression \<^verbatim>\<open>\s+\<close> of package \<^verbatim>\<open>regexp\<close>: the class \<^verbatim>\<open>\s\<close> is
  tab, newline, form feed, carriage return and space. \<^verbatim>\<open>ReplaceAllString\<close> with a
  single space puts one space in place of every maximal run of such runes.
\<close>

definition reWhite :: "rune \<Rightarrow> bool" where
  "reWhite c = (c = 0x09 \<or> c = 0x0A \<or> c = 0x0C \<or> c = 0x0D \<or> c = 0x20)"

function collapseSpaces :: "gostring \<Rightarrow> gostring" where
  "collapseSpaces [] = []"
| "collapseSpaces (c # cs) =
     (if reWhite c then 0x20 # collapseSpaces (dropWhile reWhite cs)
      else c # collapseSpaces cs)"
  by pat_completeness auto
termination
  by (relation "measure length") (auto simp: length_dropWhile_le less_Suc_eq_le)

section \<open>Package fmt: the verbs \<^verbatim>\<open>%d\<close> and \<^verbatim>\<open>%02d\<close> on an int\<close>

function digits :: "nat \<Rightarrow> gostring" where
  "digits n = (if n < 10 then [48 + n] else digits (n div 10) @ [48 + n mod 10])"
  by pat_completeness auto
termination
  by (relation "measure id") auto

declare digits.simps [simp del]

definition Sprintf_d :: "int \<Rightarrow> gostring" where
  "Sprintf_d n = (if n < 0 then 45 # digits (nat (- n)) else digits (nat n))"

text \<open>Width 2, padded with zeros; the sign counts for the width.\<close>

definition Sprintf_02d :: "int \<Rightarrow> gostring" where
  "Sprintf_02d n =
     (if n < 0 then 45 # digits (nat (- n))
      else if n < 10 then 48 # digits (nat n)
      else digits (nat n))"

section \<open>Package path/filepath, as built for a Unix target\<close>

text \<open>
  The separator is the slash, there are no volume names, and \<^verbatim>\<open>ToSlash\<close> and
  \<^verbatim>\<open>FromSlash\<close> return their argument.
\<close>

definition ToSlash :: "gostring \<Rightarrow> gostring" where
  "ToSlash path = path"

definition FromSlash :: "gostring \<Rightarrow> gostring" where
  "FromSlash path = path"

text \<open>
  \<^verbatim>\<open>filepath.Ext\<close> scans from the end: the suffix from the last dot of the last
  element, empty when a separator comes first or there is no dot. \<open>ext_scan\<close> walks
  the reversed path and collects what it has passed.
\<close>

fun ext_scan :: "gostring \<Rightarrow> gostring \<Rightarrow> gostring" where
  "ext_scan [] acc = []"
| "ext_scan (c # r) acc =
     (if c = 47 then [] else if c = 46 then c # acc else ext_scan r (c # acc))"

definition Ext :: "gostring \<Rightarrow> gostring" where
  "Ext path = ext_scan (rev path) []"

text \<open>
  \<^verbatim>\<open>filepath.Clean\<close>. The path is read element by element: empty elements and
  \<^verbatim>\<open>.\<close> are dropped; \<^verbatim>\<open>..\<close> removes the element written last when there is one
  that is not itself a kept \<^verbatim>\<open>..\<close>, is dropped at the root, and is kept otherwise.
  \<open>split_slash\<close> cuts a path at its separators, \<open>clean_elems\<close> holds the elements
  written so far, the last one first.
\<close>

fun split_slash :: "gostring \<Rightarrow> gostring list" where
  "split_slash [] = [[]]"
| "split_slash (c # cs) =
     (if c = 47 then [] # split_slash cs
      else (case split_slash cs of [] \<Rightarrow> [[c]] | e # es \<Rightarrow> (c # e) # es))"

fun clean_elems :: "bool \<Rightarrow> gostring list \<Rightarrow> gostring list \<Rightarrow> gostring list" where
  "clean_elems rooted [] out = out"
| "clean_elems rooted (e # es) out =
     (if e = [] \<or> e = [46] then clean_elems rooted es out
      else if e = [46, 46] then
        (case out of
           [] \<Rightarrow> clean_elems rooted es (if rooted then [] else [e])
         | t # ts \<Rightarrow>
             if t = [46, 46] then clean_elems rooted es (e # out)
             else clean_elems rooted es ts)
      else clean_elems rooted es (e # out))"

fun join_slash :: "gostring list \<Rightarrow> gostring" where
  "join_slash [] = []"
| "join_slash [e] = e"
| "join_slash (e # es) = e @ 47 # join_slash es"

definition Clean :: "gostring \<Rightarrow> gostring" where
  "Clean path =
     (if path = [] then [46]
      else
        let rooted = (hd path = 47);
            out = rev (clean_elems rooted (split_slash path) [])
        in if rooted then 47 # join_slash out
           else if out = [] then [46]
           else join_slash out)"

text \<open>
  \<^verbatim>\<open>filepath.Join\<close> of two elements: the elements from the first non-empty one on are
  joined with a slash and cleaned. \<^verbatim>\<open>filepath.Dir\<close>: all but the last element,
  cleaned.
\<close>

definition Join :: "gostring \<Rightarrow> gostring \<Rightarrow> gostring" where
  "Join a b =
     (if a \<noteq> [] then Clean (a @ 47 # b)
      else if b \<noteq> [] then Clean b
      else [])"

definition Dir :: "gostring \<Rightarrow> gostring" where
  "Dir path = Clean (rev (dropWhile (\<lambda>c. c \<noteq> 47) (rev path)))"

section \<open>The catalog (internal/database)\<close>

text \<open>
  The structs of the catalog. A pointer field that may be nil (\<^verbatim>\<open>*int\<close>,
  \<^verbatim>\<open>*int64\<close>) is an option. Field names that several structs share carry the
  struct's name in front.
\<close>

record LibrarySection =
  section_ID :: int
  Name :: gostring
  SectionType :: int
  Language :: gostring
  Agent :: gostring

record SectionLocation =
  loc_ID :: int
  loc_LibrarySectionID :: int
  RootPath :: gostring
  Available :: int

record MetadataItem =
  ID :: int
  LibrarySectionID :: int
  MetadataType :: int
  ParentID :: "int option"
  Title :: gostring
  TitleSort :: gostring
  OriginalTitle :: gostring
  Studio :: gostring
  Year :: "int option"
  Index :: "int option"
  OriginallyAvailable :: gostring

record MediaPart =
  part_ID :: int
  MediaItemID :: int
  File :: gostring
  Size :: int

record MovieInfo =
  movie_Metadata :: MetadataItem
  movie_Files :: "MediaPart list"

record EpisodeInfo =
  episode_Metadata :: MetadataItem
  episode_Files :: "MediaPart list"

record SeasonInfo =
  season_Metadata :: MetadataItem
  Episodes :: "EpisodeInfo list"

record ShowInfo =
  show_Metadata :: MetadataItem
  Seasons :: "SeasonInfo list"

record LibraryContent =
  Section :: LibrarySection
  Locations :: "SectionLocation list"
  Movies :: "MovieInfo list"
  Shows :: "ShowInfo list"

definition SectionTypeMovie :: int where
  "SectionTypeMovie = 1"

definition SectionTypeShow :: int where
  "SectionTypeShow = 2"

section \<open>Name formatting (internal/renamer/formatter.go)\<close>

definition DefaultTVFormat :: gostring where
  "DefaultTVFormat = str ''{show}/Season {season}/S{snum}E{enum} - {title}{ext}''"

definition DefaultMovieFormat :: gostring where
  "DefaultMovieFormat = str ''{title} ({year}){ext}''"

record Formatter =
  TVFormat :: gostring
  MovieFormat :: gostring

definition NewFormatter :: "gostring \<Rightarrow> gostring \<Rightarrow> Formatter" where
  "NewFormatter tvFormat movieFormat =
     \<lparr>TVFormat = (if tvFormat = [] then DefaultTVFormat else tvFormat),
      MovieFormat = (if movieFormat = [] then DefaultMovieFormat else movieFormat)\<rparr>"

text \<open>
  \<^verbatim>\<open>sanitizeFilename\<close>. The replacement table is a Go map, and the loop over it
  visits the entries in an order the language leaves open: \<open>sanitizeFilenameIn\<close>
  takes the order of the visit as its first argument, and \<open>sanitizeFilename\<close> visits
  the table as the source lists it. The lemma \<open>sanitizeFilenameIn_any_order\<close> below
  shows that the order of the visit does not matter. The keys are, from the top: colon,
  slash, backslash, asterisk, question mark, double quote, less-than, greater-than, pipe.
\<close>

definition replacements :: "(gostring \<times> gostring) list" where
  "replacements =
     [(str '':'', str '' -''),
      (str ''/'', str ''-''),
      ([92], str ''-''),
      (str ''*'', []),
      (str ''?'', []),
      ([34], [39]),
      (str ''<'', []),
      (str ''>'', []),
      (str ''|'', str ''-'')]"

definition applyReplacements :: "(gostring \<times> gostring) list \<Rightarrow> gostring \<Rightarrow> gostring" where
  "applyReplacements order name =
     foldl (\<lambda>result (old, new). ReplaceAll result old new) name order"

definition sanitizeFilenameIn :: "(gostring \<times> gostring) list \<Rightarrow> gostring \<Rightarrow> gostring" where
  "sanitizeFilenameIn order name =
     (let result = applyReplacements order name;
          result = filter (\<lambda>r. \<not> IsControl r) result;
          result = TrimRight result (str '' .'');
          result = collapseSpaces result
      in TrimSpace result)"

definition sanitizeFilename :: "gostring \<Rightarrow> gostring" where
  "sanitizeFilename name = sanitizeFilenameIn replacements name"

definition FormatEpisode ::
  "Formatter \<Rightarrow> MetadataItem \<Rightarrow> MetadataItem \<Rightarrow> EpisodeInfo \<Rightarrow> gostring \<Rightarrow> gostring" where
  "FormatEpisode f show season episode ext =
     (let result = TVFormat f;
          result = ReplaceAll result (str ''{show}'') (sanitizeFilename (Title show));
          seasonNum = (case Index season of None \<Rightarrow> 0 | Some i \<Rightarrow> i);
          result = ReplaceAll result (str ''{season}'') (Sprintf_d seasonNum);
          result = ReplaceAll result (str ''{snum}'') (Sprintf_02d seasonNum);
          episodeNum = (case Index (episode_Metadata episode) of None \<Rightarrow> 0 | Some i \<Rightarrow> i);
          result = ReplaceAll result (str ''{enum}'') (Sprintf_02d episodeNum);
          result = ReplaceAll result (str ''{title}'')
                     (sanitizeFilename (Title (episode_Metadata episode)));
          year = (case Year show of None \<Rightarrow> [] | Some y \<Rightarrow> Sprintf_d y);
          result = ReplaceAll result (str ''{year}'') year;
          result = ReplaceAll result (str ''{ext}'') ext
      in result)"

definition FormatMovie :: "Formatter \<Rightarrow> MovieInfo \<Rightarrow> gostring \<Rightarrow> gostring" where
  "FormatMovie f movie ext =
     (let result = MovieFormat f;
          result = ReplaceAll result (str ''{title}'')
                     (sanitizeFilename (Title (movie_Metadata movie)));
          year = (case Year (movie_Metadata movie) of
                    None \<Rightarrow> str ''Unknown'' | Some y \<Rightarrow> Sprintf_d y);
          result = ReplaceAll result (str ''{year}'') year;
          result = ReplaceAll result (str ''{ext}'') ext
      in result)"

definition ApplyPathMapping :: "gostring \<Rightarrow> gostring \<Rightarrow> gostring \<Rightarrow> gostring" where
  "ApplyPathMapping path srcPrefix dstPrefix =
     (if srcPrefix = [] \<or> dstPrefix = [] then path
      else
        let normalizedPath = ToSlash path;
            normalizedSrc = ToSlash srcPrefix
        in if HasPrefix normalizedPath normalizedSrc
           then FromSlash (dstPrefix @ drop (length normalizedSrc) normalizedPath)
           else path)"

definition GetExtension :: "gostring \<Rightarrow> gostring" where
  "GetExtension path = Ext path"

section \<open>File operations (internal/renamer/operations.go)\<close>

text \<open>
  \<^verbatim>\<open>OperationMode\<close> is a string type with the two constants below; any other
  string reaches the default branch of \<^verbatim>\<open>Execute\<close>.
\<close>

type_synonym OperationMode = gostring

definition ModeCopy :: OperationMode where
  "ModeCopy = str ''copy''"

definition ModeMove :: OperationMode where
  "ModeMove = str ''move''"

record Operation =
  Source :: gostring
  Destination :: gostring
  Mode :: OperationMode

text \<open>
  The errors of \<^verbatim>\<open>Execute\<close>, \<^verbatim>\<open>copyFile\<close> and \<^verbatim>\<open>moveFile\<close>, one constructor for
  each error the source builds:
  \<^item> \<open>SourceMissing\<close>: "source file does not exist: ...";
  \<^item> \<open>MkdirFailed\<close>: "failed to create directory ...";
  \<^item> \<open>OpenFailed\<close>: "failed to open source: ...";
  \<^item> \<open>CreateFailed\<close>: "failed to create destination: ...";
  \<^item> \<open>CopyFailed\<close>: "failed to copy: ...";
  \<^item> \<open>VerifyStatFailed\<close>: "failed to verify copy: ...";
  \<^item> \<open>CopyVerificationFailed\<close>: "copy verification failed: size mismatch";
  \<^item> \<open>SourceRemovalFailed\<close>: "copied successfully but failed to remove source: ...";
  \<^item> \<open>UnknownOperationMode\<close>: "unknown operation mode: ...";
  \<^item> \<open>NilInfoPanic\<close>: \<^verbatim>\<open>moveFile\<close> drops the error of its \<^verbatim>\<open>os.Stat\<close> of the source
    and calls \<^verbatim>\<open>Size\<close> on the result, which panics when that is nil, that is,
    whenever that stat failed.
\<close>

datatype error =
    SourceMissing
  | MkdirFailed
  | OpenFailed
  | CreateFailed
  | CopyFailed
  | VerifyStatFailed
  | CopyVerificationFailed
  | SourceRemovalFailed
  | UnknownOperationMode
  | NilInfoPanic

record Result =
  res_Operation :: Operation
  Success :: bool
  Skipped :: bool
  Error :: "error option"
  Message :: gostring

subsection \<open>The file system\<close>

text \<open>
  The state of the file system is the regular files it holds, by path (paths are
  compared as strings), each with its bytes and its permission bits, and the trace of
  the calls made to it so far. Directories are not part of the state.

  What the operating system decides is the record \<open>os_env\<close>: which calls it refuses,
  and how far a copy gets. A copy either transfers every byte, or ends without an error
  after \<open>n\<close> bytes (\<open>CopyShort n\<close>: the source was cut while it was read), or fails
  after \<open>n\<close> bytes (\<open>CopyBroken n\<close>).

  \<^verbatim>\<open>os.Stat\<close> has two kinds of failure, which the program tells apart with
  \<^verbatim>\<open>os.IsNotExist\<close>: on a path that the operating system refuses to inspect
  (\<open>stat_refused\<close>: a path that runs through a regular file, a directory that may not
  be searched, a name that is too long) the error is one for which \<^verbatim>\<open>os.IsNotExist\<close>
  is false, whether or not a file lies there; on any other path that holds no file the
  error is "does not exist".
\<close>

record FileData =
  data :: "nat list"
  perm :: nat

datatype syscall =
    SysStat gostring
  | SysMkdirAll gostring
  | SysRename gostring gostring
  | SysOpen gostring
  | SysCreate gostring
  | SysCopy gostring gostring
  | SysChmod gostring nat
  | SysRemove gostring

record filesystem =
  disk :: "gostring \<rightharpoonup> FileData"
  trace :: "syscall list"

datatype copy_result = CopyComplete | CopyShort nat | CopyBroken nat

datatype stat_error = ErrNotExist | ErrOther

record os_env =
  stat_refused :: "gostring \<Rightarrow> bool"
  mkdir_fails :: "gostring \<Rightarrow> bool"
  rename_fails :: "gostring \<Rightarrow> gostring \<Rightarrow> bool"
  open_fails :: "gostring \<Rightarrow> bool"
  create_fails :: "gostring \<Rightarrow> bool"
  copy_outcome :: "gostring \<Rightarrow> gostring \<Rightarrow> copy_result"
  chmod_fails :: "gostring \<Rightarrow> bool"
  remove_fails :: "gostring \<Rightarrow> bool"
  create_perm :: nat

definition called :: "syscall \<Rightarrow> filesystem \<Rightarrow> filesystem" where
  "called c s = s\<lparr>trace := trace s @ [c]\<rparr>"

text \<open>
  \<^verbatim>\<open>os.Stat\<close> returns the file's data (\<open>Inr\<close>, the error is nil) or an error
  (\<open>Inl\<close>); \<^verbatim>\<open>os.IsNotExist\<close> holds of the error "does not exist" only.
\<close>

definition os_Stat ::
  "os_env \<Rightarrow> gostring \<Rightarrow> filesystem \<Rightarrow> (stat_error + FileData) \<times> filesystem" where
  "os_Stat E path s =
     ((if stat_refused E path then Inl ErrOther
       else case disk s path of None \<Rightarrow> Inl ErrNotExist | Some f \<Rightarrow> Inr f),
      called (SysStat path) s)"

definition IsNotExist :: "stat_error + FileData \<Rightarrow> bool" where
  "IsNotExist r = (r = Inl ErrNotExist)"

text \<open>The test \<^verbatim>\<open>err == nil\<close> on the result of \<^verbatim>\<open>os.Stat\<close>.\<close>

definition ErrIsNil :: "stat_error + FileData \<Rightarrow> bool" where
  "ErrIsNil r = (case r of Inl err \<Rightarrow> False | Inr info \<Rightarrow> True)"

text \<open>Each of the calls below returns whether it succeeded.\<close>

definition os_MkdirAll :: "os_env \<Rightarrow> gostring \<Rightarrow> filesystem \<Rightarrow> bool \<times> filesystem" where
  "os_MkdirAll E path s = (\<not> mkdir_fails E path, called (SysMkdirAll path) s)"

definition os_Rename ::
  "os_env \<Rightarrow> gostring \<Rightarrow> gostring \<Rightarrow> filesystem \<Rightarrow> bool \<times> filesystem" where
  "os_Rename E old new s =
     (case disk s old of
        None \<Rightarrow> (False, called (SysRename old new) s)
      | Some f \<Rightarrow>
          if rename_fails E old new then (False, called (SysRename old new) s)
          else (True, called (SysRename old new)
                        (s\<lparr>disk := ((disk s)(old := None))(new \<mapsto> f)\<rparr>)))"

definition os_Open :: "os_env \<Rightarrow> gostring \<Rightarrow> filesystem \<Rightarrow> bool \<times> filesystem" where
  "os_Open E path s =
     (disk s path \<noteq> None \<and> \<not> open_fails E path, called (SysOpen path) s)"

text \<open>\<^verbatim>\<open>os.Create\<close> makes an empty file, or empties the file that is there.\<close>

definition os_Create :: "os_env \<Rightarrow> gostring \<Rightarrow> filesystem \<Rightarrow> bool \<times> filesystem" where
  "os_Create E path s =
     (if create_fails E path then (False, called (SysCreate path) s)
      else
        let p = (case disk s path of None \<Rightarrow> create_perm E | Some f \<Rightarrow> perm f)
        in (True, called (SysCreate path)
                    (s\<lparr>disk := (disk s)(path \<mapsto> \<lparr>data = [], perm = p\<rparr>)\<rparr>)))"

text \<open>
  \<^verbatim>\<open>io.Copy\<close> from the open source to the open destination: the bytes that arrive
  are written to the destination, and the result tells whether the copy reported
  success.
\<close>

definition io_Copy ::
  "os_env \<Rightarrow> gostring \<Rightarrow> gostring \<Rightarrow> filesystem \<Rightarrow> bool \<times> filesystem" where
  "io_Copy E src dst s =
     (case (disk s src, disk s dst) of
        (Some f, Some d) \<Rightarrow>
          (case copy_outcome E src dst of
             CopyComplete \<Rightarrow>
               (True, called (SysCopy src dst)
                        (s\<lparr>disk := (disk s)(dst \<mapsto> d\<lparr>data := data f\<rparr>)\<rparr>))
           | CopyShort n \<Rightarrow>
               (True, called (SysCopy src dst)
                        (s\<lparr>disk := (disk s)(dst \<mapsto> d\<lparr>data := take n (data f)\<rparr>)\<rparr>))
           | CopyBroken n \<Rightarrow>
               (False, called (SysCopy src dst)
                         (s\<lparr>disk := (disk s)(dst \<mapsto> d\<lparr>data := take n (data f)\<rparr>)\<rparr>)))
      | _ \<Rightarrow> (False, called (SysCopy src dst) s))"

definition os_Chmod ::
  "os_env \<Rightarrow> gostring \<Rightarrow> nat \<Rightarrow> filesystem \<Rightarrow> bool \<times> filesystem" where
  "os_Chmod E path m s =
     (case disk s path of
        None \<Rightarrow> (False, called (SysChmod path m) s)
      | Some f \<Rightarrow>
          if chmod_fails E path then (False, called (SysChmod path m) s)
          else (True, called (SysChmod path m)
                        (s\<lparr>disk := (disk s)(path \<mapsto> f\<lparr>perm := m\<rparr>)\<rparr>)))"

definition os_Remove :: "os_env \<Rightarrow> gostring \<Rightarrow> filesystem \<Rightarrow> bool \<times> filesystem" where
  "os_Remove E path s =
     (case disk s path of
        None \<Rightarrow> (False, called (SysRemove path) s)
      | Some f \<Rightarrow>
          if remove_fails E path then (False, called (SysRemove path) s)
          else (True, called (SysRemove path) (s\<lparr>disk := (disk s)(path := None)\<rparr>)))"

subsection \<open>copyFile, moveFile, Execute, BatchExecute\<close>

text \<open>The error returned is None for Go's nil.\<close>

definition copyFile ::
  "os_env \<Rightarrow> gostring \<Rightarrow> gostring \<Rightarrow> filesystem \<Rightarrow> error option \<times> filesystem" where
  "copyFile E src dst s =
     (let (opened, s1) = os_Open E src s in
      if \<not> opened then (Some OpenFailed, s1)
      else
        let (created, s2) = os_Create E dst s1 in
        if \<not> created then (Some CreateFailed, s2)
        else
          let (copied, s3) = io_Copy E src dst s2 in
          if \<not> copied then
            (let (removed, s4) = os_Remove E dst s3 in (Some CopyFailed, s4))
          else
            let (sourceInfo, s4) = os_Stat E src s3 in
            (case sourceInfo of
               Inr info \<Rightarrow> (let (changed, s5) = os_Chmod E dst (perm info) s4 in (None, s5))
             | Inl err \<Rightarrow> (None, s4)))"

definition moveFile ::
  "os_env \<Rightarrow> gostring \<Rightarrow> gostring \<Rightarrow> filesystem \<Rightarrow> error option \<times> filesystem" where
  "moveFile E src dst s =
     (let (renamed, s1) = os_Rename E src dst s in
      if renamed then (None, s1)
      else
        let (err, s2) = copyFile E src dst s1 in
        if err \<noteq> None then (err, s2)
        else
          let (srcInfo, s3) = os_Stat E src s2;
              (dstInfo, s4) = os_Stat E dst s3
          in (case dstInfo of
                Inl err \<Rightarrow> (Some VerifyStatFailed, s4)
              | Inr dinfo \<Rightarrow>
                  (case srcInfo of
                     Inl ignored \<Rightarrow> (Some NilInfoPanic, s4)
                   | Inr sinfo \<Rightarrow>
                       if length (data sinfo) \<noteq> length (data dinfo) then
                         (let (removed, s5) = os_Remove E dst s4
                          in (Some CopyVerificationFailed, s5))
                       else
                         let (removed, s5) = os_Remove E src s4 in
                         if \<not> removed then (Some SourceRemovalFailed, s5)
                         else (None, s5))))"

definition Execute ::
  "os_env \<Rightarrow> Operation \<Rightarrow> bool \<Rightarrow> filesystem \<Rightarrow> Result \<times> filesystem" where
  "Execute E op dryRun s =
     (let result = \<lparr>res_Operation = op, Success = False, Skipped = False,
                    Error = None, Message = []\<rparr> in
      if dryRun then
        (result\<lparr>Success := True, Message := str ''dry run - no changes made''\<rparr>, s)
      else
        let (srcInfo, s1) = os_Stat E (Source op) s in
        if IsNotExist srcInfo then (result\<lparr>Error := Some SourceMissing\<rparr>, s1)
        else
          let (dstInfo, s2) = os_Stat E (Destination op) s1 in
          if ErrIsNil dstInfo then
            (result\<lparr>Skipped := True, Success := True,
                    Message := str ''destination already exists, skipped''\<rparr>, s2)
          else
            let destDir = Dir (Destination op);
                (made, s3) = os_MkdirAll E destDir s2
            in
            if \<not> made then (result\<lparr>Error := Some MkdirFailed\<rparr>, s3)
            else
              let (err, s4) =
                    (if Mode op = ModeCopy then copyFile E (Source op) (Destination op) s3
                     else if Mode op = ModeMove then moveFile E (Source op) (Destination op) s3
                     else (Some UnknownOperationMode, s3))
              in
              if err \<noteq> None then (result\<lparr>Error := err\<rparr>, s4)
              else (result\<lparr>Success := True, Message := Mode op @ str '' completed''\<rparr>, s4))"

text \<open>
  \<^verbatim>\<open>BatchExecute\<close> runs the operations in order on the same file system; its
  progress callback only prints.
\<close>

fun BatchExecute ::
  "os_env \<Rightarrow> Operation list \<Rightarrow> bool \<Rightarrow> filesystem \<Rightarrow> Result list \<times> filesystem" where
  "BatchExecute E [] dryRun s = ([], s)"
| "BatchExecute E (op # operations) dryRun s =
     (let (r, s1) = Execute E op dryRun s;
          (rs, s2) = BatchExecute E operations dryRun s1
      in (r # rs, s2))"

section \<open>Approval prompts (internal/cli)\<close>

text \<open>
  The prompter reads its answers from standard input. Its state here is the flag
  \<^verbatim>\<open>ApproveAll\<close> of its approval state, the lines that standard input still holds
  (\<^verbatim>\<open>ReadString\<close> takes the first one, and fails at the end of the input), and the
  list of the approval prompts called so far, by kind and metadata id. What the prompts
  print is left out.
\<close>

datatype prompt_call = CalledPromptMovie int | CalledPromptShow int

datatype prompt_error = ReadFailed

record Prompter =
  ApproveAll :: bool
  reader :: "gostring list"
  prompted :: "prompt_call list"

record PathPreview =
  pv_Source :: gostring
  pv_Destination :: gostring

definition askYesNoAll ::
  "(rune \<Rightarrow> rune) \<Rightarrow> Prompter \<Rightarrow> (prompt_error + bool \<times> bool) \<times> Prompter" where
  "askYesNoAll lc p =
     (case reader p of
        [] \<Rightarrow> (Inl ReadFailed, p)
      | line # rest \<Rightarrow>
          let p1 = p\<lparr>reader := rest\<rparr>;
              input = TrimSpace (ToLower lc line)
          in if input = str ''y'' \<or> input = str ''yes'' then (Inr (True, False), p1)
             else if input = str ''a'' \<or> input = str ''all''
               then (Inr (True, True), p1\<lparr>ApproveAll := True\<rparr>)
             else (Inr (False, False), p1))"

definition PromptShow ::
  "(rune \<Rightarrow> rune) \<Rightarrow> Prompter \<Rightarrow> ShowInfo \<Rightarrow> nat \<Rightarrow> PathPreview list
     \<Rightarrow> (prompt_error + bool \<times> bool) \<times> Prompter" where
  "PromptShow lc p show episodeCount previews =
     (let p1 = p\<lparr>prompted := prompted p @ [CalledPromptShow (ID (show_Metadata show))]\<rparr>
      in if ApproveAll p1 then (Inr (True, False), p1)
         else askYesNoAll lc p1)"

definition PromptMovie ::
  "(rune \<Rightarrow> rune) \<Rightarrow> Prompter \<Rightarrow> MovieInfo \<Rightarrow> PathPreview list
     \<Rightarrow> (prompt_error + bool \<times> bool) \<times> Prompter" where
  "PromptMovie lc p movie previews =
     (let p1 = p\<lparr>prompted := prompted p @ [CalledPromptMovie (ID (movie_Metadata movie))]\<rparr>
      in if ApproveAll p1 then (Inr (True, False), p1)
         else askYesNoAll lc p1)"

record LocationWithOutput =
  Location :: SectionLocation
  OutputPath :: gostring

section \<open>Plan compilation (cmd/main.go)\<close>

record Config =
  DatabasePath :: gostring
  OutputDir :: gostring
  DryRun :: bool
  ScriptMode :: bool
  ScriptShell :: gostring
  ScriptOutput :: gostring
  cfg_Mode :: OperationMode
  cfg_TVFormat :: gostring
  cfg_MovieFormat :: gostring
  PathMapSrc :: gostring
  PathMapDst :: gostring
  AutoApprove :: bool

definition normalizePathForComparison :: "(rune \<Rightarrow> rune) \<Rightarrow> gostring \<Rightarrow> gostring" where
  "normalizePathForComparison lc path =
     (let normalized = ToLower lc (ToSlash path);
          normalized = TrimPrefix normalized (str ''//?/'');
          normalized = TrimPrefix normalized (str ''//./'')
      in normalized)"

fun pathInLocations :: "(rune \<Rightarrow> rune) \<Rightarrow> gostring \<Rightarrow> SectionLocation list \<Rightarrow> bool" where
  "pathInLocations lc filePath [] = False"
| "pathInLocations lc filePath (loc # locations) =
     (let normalizedPath = normalizePathForComparison lc filePath;
          normalizedLoc = normalizePathForComparison lc (RootPath loc);
          normalizedLoc = TrimSuffix normalizedLoc (str ''/'')
      in if HasPrefix normalizedPath (normalizedLoc @ str ''/'') then True
         else pathInLocations lc filePath locations)"

fun getLocationForPath ::
  "(rune \<Rightarrow> rune) \<Rightarrow> gostring \<Rightarrow> SectionLocation list \<Rightarrow> gostring" where
  "getLocationForPath lc filePath [] = []"
| "getLocationForPath lc filePath (loc # locations) =
     (let normalizedPath = normalizePathForComparison lc filePath;
          normalizedLoc = normalizePathForComparison lc (RootPath loc);
          normalizedLoc = TrimSuffix normalizedLoc (str ''/'')
      in if HasPrefix normalizedPath (normalizedLoc @ str ''/'') then RootPath loc
         else getLocationForPath lc filePath locations)"

fun fileInLocations ::
  "(rune \<Rightarrow> rune) \<Rightarrow> MediaPart list \<Rightarrow> SectionLocation list \<Rightarrow> bool" where
  "fileInLocations lc [] locations = False"
| "fileInLocations lc (file # files) locations =
     (if pathInLocations lc (File file) locations then True
      else fileInLocations lc files locations)"

definition showInLocations ::
  "(rune \<Rightarrow> rune) \<Rightarrow> ShowInfo \<Rightarrow> SectionLocation list \<Rightarrow> bool" where
  "showInLocations lc show locations =
     (\<exists>season \<in> set (Seasons show). \<exists>episode \<in> set (Episodes season).
        fileInLocations lc (episode_Files episode) locations)"

text \<open>
  The closure \<^verbatim>\<open>getOutputPath\<close> of \<^verbatim>\<open>generateOperations\<close>; \<open>overrideFor\<close> is its
  loop over the location outputs, which returns the output path of the first location
  that holds the file.
\<close>

fun overrideFor ::
  "(rune \<Rightarrow> rune) \<Rightarrow> gostring \<Rightarrow> LocationWithOutput list \<Rightarrow> gostring option" where
  "overrideFor lc filePath [] = None"
| "overrideFor lc filePath (lo # los) =
     (if pathInLocations lc filePath [Location lo] then Some (OutputPath lo)
      else overrideFor lc filePath los)"

definition getOutputPath ::
  "(rune \<Rightarrow> rune) \<Rightarrow> Config \<Rightarrow> LibraryContent \<Rightarrow> LocationWithOutput list \<Rightarrow> gostring
     \<Rightarrow> gostring" where
  "getOutputPath lc config content locationOutputs filePath =
     (case overrideFor lc filePath locationOutputs of
        Some out \<Rightarrow> out
      | None \<Rightarrow>
          if OutputDir config \<noteq> [] then OutputDir config
          else
            let locPath = getLocationForPath lc filePath (Locations content)
            in if locPath \<noteq> [] then locPath else str ''.'')"

text \<open>
  The body of the loops over the files: the preview of one file. The nil slice of
  selected locations is None.
\<close>

definition moviePreview ::
  "(rune \<Rightarrow> rune) \<Rightarrow> Config \<Rightarrow> Formatter \<Rightarrow> LibraryContent \<Rightarrow> LocationWithOutput list
     \<Rightarrow> MovieInfo \<Rightarrow> MediaPart \<Rightarrow> PathPreview" where
  "moviePreview lc config formatter content locationOutputs movie file =
     (let srcPath = File file;
          srcPath = (if PathMapSrc config \<noteq> []
                     then ApplyPathMapping srcPath (PathMapSrc config) (PathMapDst config)
                     else srcPath);
          ext = GetExtension srcPath;
          destName = FormatMovie formatter movie ext;
          outputDir = getOutputPath lc config content locationOutputs (File file);
          destPath = Join outputDir destName
      in \<lparr>pv_Source = srcPath, pv_Destination = destPath\<rparr>)"

definition episodePreview ::
  "(rune \<Rightarrow> rune) \<Rightarrow> Config \<Rightarrow> Formatter \<Rightarrow> LibraryContent \<Rightarrow> LocationWithOutput list
     \<Rightarrow> ShowInfo \<Rightarrow> SeasonInfo \<Rightarrow> EpisodeInfo \<Rightarrow> MediaPart \<Rightarrow> PathPreview" where
  "episodePreview lc config formatter content locationOutputs show season episode file =
     (let srcPath = File file;
          srcPath = (if PathMapSrc config \<noteq> []
                     then ApplyPathMapping srcPath (PathMapSrc config) (PathMapDst config)
                     else srcPath);
          ext = GetExtension srcPath;
          destName = FormatEpisode formatter (show_Metadata show) (season_Metadata season)
                       episode ext;
          outputDir = getOutputPath lc config content locationOutputs (File file);
          destPath = Join outputDir destName
      in \<lparr>pv_Source = srcPath, pv_Destination = destPath\<rparr>)"

definition selectedFiles ::
  "(rune \<Rightarrow> rune) \<Rightarrow> SectionLocation list option \<Rightarrow> MediaPart list \<Rightarrow> MediaPart list" where
  "selectedFiles lc selectedLocations fs =
     filter (\<lambda>file. \<not> (selectedLocations \<noteq> None
                         \<and> \<not> pathInLocations lc (File file) (the selectedLocations))) fs"

definition moviePreviews ::
  "(rune \<Rightarrow> rune) \<Rightarrow> Config \<Rightarrow> Formatter \<Rightarrow> LibraryContent \<Rightarrow> SectionLocation list option
     \<Rightarrow> LocationWithOutput list \<Rightarrow> MovieInfo \<Rightarrow> PathPreview list" where
  "moviePreviews lc config formatter content selectedLocations locationOutputs movie =
     map (moviePreview lc config formatter content locationOutputs movie)
       (selectedFiles lc selectedLocations (movie_Files movie))"

definition showPreviews ::
  "(rune \<Rightarrow> rune) \<Rightarrow> Config \<Rightarrow> Formatter \<Rightarrow> LibraryContent \<Rightarrow> SectionLocation list option
     \<Rightarrow> LocationWithOutput list \<Rightarrow> ShowInfo \<Rightarrow> PathPreview list" where
  "showPreviews lc config formatter content selectedLocations locationOutputs show =
     concat (map (\<lambda>season.
       concat (map (\<lambda>episode.
         map (episodePreview lc config formatter content locationOutputs show season episode)
           (selectedFiles lc selectedLocations (episode_Files episode)))
         (Episodes season)))
       (Seasons show))"

definition previewOperations :: "Config \<Rightarrow> PathPreview list \<Rightarrow> Operation list" where
  "previewOperations config previews =
     map (\<lambda>pv. \<lparr>Source = pv_Source pv, Destination = pv_Destination pv,
                Mode = cfg_Mode config\<rparr>) previews"

text \<open>
  The loop over the movies and the loop over the shows, with the operations gathered
  so far and the prompter; an error of the prompter ends the compilation.
\<close>

fun moviesLoop ::
  "(rune \<Rightarrow> rune) \<Rightarrow> Config \<Rightarrow> Formatter \<Rightarrow> LibraryContent \<Rightarrow> SectionLocation list option
     \<Rightarrow> LocationWithOutput list \<Rightarrow> MovieInfo list \<Rightarrow> Operation list \<Rightarrow> Prompter
     \<Rightarrow> (prompt_error + Operation list) \<times> Prompter" where
  "moviesLoop lc config formatter content selectedLocations locationOutputs []
     operations prompter = (Inr operations, prompter)"
| "moviesLoop lc config formatter content selectedLocations locationOutputs (movie # movies)
     operations prompter =
     (if selectedLocations \<noteq> None
         \<and> \<not> fileInLocations lc (movie_Files movie) (the selectedLocations)
      then moviesLoop lc config formatter content selectedLocations locationOutputs movies
             operations prompter
      else
        let previews = moviePreviews lc config formatter content selectedLocations
                         locationOutputs movie
        in if \<not> AutoApprove config \<and> \<not> ScriptMode config then
             (case PromptMovie lc prompter movie previews of
                (Inl err, prompter1) \<Rightarrow> (Inl err, prompter1)
              | (Inr (proceed, approveAll), prompter1) \<Rightarrow>
                  if \<not> proceed
                  then moviesLoop lc config formatter content selectedLocations
                         locationOutputs movies operations prompter1
                  else moviesLoop lc config formatter content selectedLocations
                         locationOutputs movies
                         (operations @ previewOperations config previews) prompter1)
           else moviesLoop lc config formatter content selectedLocations locationOutputs
                  movies (operations @ previewOperations config previews) prompter)"

fun showsLoop ::
  "(rune \<Rightarrow> rune) \<Rightarrow> Config \<Rightarrow> Formatter \<Rightarrow> LibraryContent \<Rightarrow> SectionLocation list option
     \<Rightarrow> LocationWithOutput list \<Rightarrow> ShowInfo list \<Rightarrow> Operation list \<Rightarrow> Prompter
     \<Rightarrow> (prompt_error + Operation list) \<times> Prompter" where
  "showsLoop lc config formatter content selectedLocations locationOutputs []
     operations prompter = (Inr operations, prompter)"
| "showsLoop lc config formatter content selectedLocations locationOutputs (show # shows)
     operations prompter =
     (if selectedLocations \<noteq> None \<and> \<not> showInLocations lc show (the selectedLocations)
      then showsLoop lc config formatter content selectedLocations locationOutputs shows
             operations prompter
      else
        let previews = showPreviews lc config formatter content selectedLocations
                         locationOutputs show
        in if length previews = 0
           then showsLoop lc config formatter content selectedLocations locationOutputs
                  shows operations prompter
           else if \<not> AutoApprove config \<and> \<not> ScriptMode config then
             (case PromptShow lc prompter show (length previews) previews of
                (Inl err, prompter1) \<Rightarrow> (Inl err, prompter1)
              | (Inr (proceed, approveAll), prompter1) \<Rightarrow>
                  if \<not> proceed
                  then showsLoop lc config formatter content selectedLocations
                         locationOutputs shows operations prompter1
                  else showsLoop lc config formatter content selectedLocations
                         locationOutputs shows
                         (operations @ previewOperations config previews) prompter1)
           else showsLoop lc config formatter content selectedLocations locationOutputs
                  shows (operations @ previewOperations config previews) prompter)"

definition generateOperations ::
  "(rune \<Rightarrow> rune) \<Rightarrow> Config \<Rightarrow> Formatter \<Rightarrow> Prompter \<Rightarrow> LibraryContent
     \<Rightarrow> SectionLocation list option \<Rightarrow> LocationWithOutput list
     \<Rightarrow> (prompt_error + Operation list) \<times> Prompter" where
  "generateOperations lc config formatter prompter content selectedLocations locationOutputs =
     (if SectionType (Section content) = SectionTypeMovie
      then moviesLoop lc config formatter content selectedLocations locationOutputs
             (Movies content) [] prompter
      else if SectionType (Section content) = SectionTypeShow
      then showsLoop lc config formatter content selectedLocations locationOutputs
             (Shows content) [] prompter
      else (Inr [], prompter))"

section \<open>Script emission: escaping for Windows batch files (cmd/main.go)\<close>

text \<open>
  \<^verbatim>\<open>escapeCmdPath\<close>: six calls of \<^verbatim>\<open>strings.ReplaceAll\<close>, each on the result of
  the one before, in the order of the source.
\<close>

definition escapeCmdPath :: "gostring \<Rightarrow> gostring" where
  "escapeCmdPath path =
     (let result = path;
          result = ReplaceAll result (str ''%'') (str ''%%'');
          result = ReplaceAll result (str ''^'') (str ''^^'');
          result = ReplaceAll result (str ''&'') (str ''^&'');
          result = ReplaceAll result (str ''<'') (str ''^<'');
          result = ReplaceAll result (str ''>'') (str ''^>'');
          result = ReplaceAll result (str ''|'') (str ''^|'');
          result = ReplaceAll result (str ''!'') (str ''^!'')
      in result)"

text \<open>
  The escaping as the specification words it, one input character at a time: a percent
  sign and a caret are doubled, the five other metacharacters get one caret in front,
  every other character stays.
\<close>

definition batch_escape_char :: "rune \<Rightarrow> gostring" where
  "batch_escape_char c =
     (if c = of_char CHR ''%'' then str ''%%''
      else if c = of_char CHR ''^'' then str ''^^''
      else if c = of_char CHR ''&'' then str ''^&''
      else if c = of_char CHR ''<'' then str ''^<''
      else if c = of_char CHR ''>'' then str ''^>''
      else if c = of_char CHR ''|'' then str ''^|''
      else if c = of_char CHR ''!'' then str ''^!''
      else [c])"

definition batch_escape_spec :: "gostring \<Rightarrow> gostring" where
  "batch_escape_spec path = concat (map batch_escape_char path)"

section \<open>Example inputs\<close>

text \<open>
  An operating system that refuses nothing and copies every byte, one that refuses to
  inspect a given path (as \<^verbatim>\<open>/src/f/a.mkv\<close> when \<^verbatim>\<open>/src/f\<close> is a regular
  file), one where a rename fails (as across file systems), one where in addition the
  removal of a given path fails, and one where in addition a copy stops short.
\<close>

definition willing_os :: os_env where
  "willing_os =
     \<lparr>stat_refused = (\<lambda>p. False), mkdir_fails = (\<lambda>p. False), rename_fails = (\<lambda>a b. False), open_fails = (\<lambda>p. False),
      create_fails = (\<lambda>p. False), copy_outcome = (\<lambda>a b. CopyComplete),
      chmod_fails = (\<lambda>p. False), remove_fails = (\<lambda>p. False), create_perm = 420\<rparr>"

definition cross_device_os :: os_env where
  "cross_device_os = willing_os\<lparr>rename_fails := (\<lambda>a b. True)\<rparr>"

definition keeps_os :: "gostring \<Rightarrow> os_env" where
  "keeps_os path = cross_device_os\<lparr>remove_fails := (\<lambda>p. p = path)\<rparr>"

definition blind_os :: "gostring \<Rightarrow> os_env" where
  "blind_os path = willing_os\<lparr>stat_refused := (\<lambda>p. p = path)\<rparr>"


definition one_file :: "gostring \<Rightarrow> filesystem" where
  "one_file path = \<lparr>disk = [path \<mapsto> \<lparr>data = [1, 2, 3], perm = 420\<rparr>], trace = []\<rparr>"

definition move_a :: Operation where
  "move_a = \<lparr>Source = str ''/src/a.mkv'', Destination = str ''/out/a.mkv'', Mode = ModeMove\<rparr>"

definition move_under_file :: Operation where
  "move_under_file =
     \<lparr>Source = str ''/src/f/a.mkv'', Destination = str ''/out/a.mkv'', Mode = ModeMove\<rparr>"

text \<open>
  A catalog of one show, "Show A" of 2020, with season 1 and its episode 3, "Pilot",
  whose one file is at the given path; a catalog of one movie that has no file; a
  configuration that moves into \<^verbatim>\<open>/out\<close> without asking, and the same one asking.
\<close>

definition blank_item :: MetadataItem where
  "blank_item =
     \<lparr>ID = 0, LibrarySectionID = 1, MetadataType = 0, ParentID = None, Title = [],
      TitleSort = [], OriginalTitle = [], Studio = [], Year = None, Index = None,
      OriginallyAvailable = []\<rparr>"

definition file_a :: "gostring \<Rightarrow> MediaPart" where
  "file_a path = \<lparr>part_ID = 1, MediaItemID = 1, File = path, Size = 3\<rparr>"

definition episode_a :: "gostring \<Rightarrow> EpisodeInfo" where
  "episode_a path =
     \<lparr>episode_Metadata = blank_item\<lparr>ID := 12, MetadataType := 4, Title := str ''Pilot'',
                                      Index := Some 3\<rparr>,
      episode_Files = [file_a path]\<rparr>"

definition season_a :: "gostring \<Rightarrow> SeasonInfo" where
  "season_a path =
     \<lparr>season_Metadata = blank_item\<lparr>ID := 11, MetadataType := 3, Index := Some 1\<rparr>,
      Episodes = [episode_a path]\<rparr>"

definition show_a :: "gostring \<Rightarrow> ShowInfo" where
  "show_a path =
     \<lparr>show_Metadata = blank_item\<lparr>ID := 10, MetadataType := 2, Title := str ''Show A'',
                                   Year := Some 2020\<rparr>,
      Seasons = [season_a path]\<rparr>"

definition show_library :: "gostring \<Rightarrow> LibraryContent" where
  "show_library path =
     \<lparr>Section = \<lparr>section_ID = 1, Name = str ''TV'', SectionType = SectionTypeShow,
                  Language = str ''en'', Agent = []\<rparr>,
      Locations = [], Movies = [], Shows = [show_a path]\<rparr>"

definition fileless_movie_library :: LibraryContent where
  "fileless_movie_library =
     \<lparr>Section = \<lparr>section_ID = 2, Name = str ''Films'', SectionType = SectionTypeMovie,
                  Language = str ''en'', Agent = []\<rparr>,
      Locations = [],
      Movies = [\<lparr>movie_Metadata = blank_item\<lparr>ID := 7, MetadataType := 1,
                                                Title := str ''Lost''\<rparr>,
                 movie_Files = []\<rparr>],
      Shows = []\<rparr>"

definition unattended_config :: Config where
  "unattended_config =
     \<lparr>DatabasePath = str ''plex.db'', OutputDir = str ''/out'', DryRun = False,
      ScriptMode = False, ScriptShell = str ''cmd'', ScriptOutput = [],
      cfg_Mode = ModeMove, cfg_TVFormat = DefaultTVFormat,
      cfg_MovieFormat = DefaultMovieFormat, PathMapSrc = [], PathMapDst = [],
      AutoApprove = True\<rparr>"

definition asking_config :: Config where
  "asking_config = unattended_config\<lparr>AutoApprove := False\<rparr>"

definition answers :: "gostring list \<Rightarrow> Prompter" where
  "answers lines = \<lparr>ApproveAll = False, reader = lines, prompted = []\<rparr>"

section \<open>Properties of the string functions\<close>

lemma ReplaceAll_single:
  "ReplaceAll s [k] new = concat (map (\<lambda>c. if c = k then new else [c]) s)"
proof (induction s)
  case Nil
  show ?case by (simp add: ReplaceAll.simps)
next
  case (Cons c s)
  from Cons.IH show ?case
    by (subst ReplaceAll.simps) auto
qed

lemma concat_map_concat_map:
  "concat (map g (concat (map f s))) = concat (map (\<lambda>c. concat (map g (f c))) s)"
  by (induction s) simp_all

lemma ReplaceAll_Nil: "old \<noteq> [] \<Longrightarrow> ReplaceAll [] old new = []"
  by (simp add: ReplaceAll.simps)

lemma ReplaceAll_match:
  "old \<noteq> [] \<Longrightarrow> prefix old (c # s) \<Longrightarrow>
     ReplaceAll (c # s) old new = new @ ReplaceAll (drop (length old) (c # s)) old new"
  by (subst ReplaceAll.simps) simp

lemma ReplaceAll_skip:
  "old \<noteq> [] \<Longrightarrow> \<not> prefix old (c # s) \<Longrightarrow>
     ReplaceAll (c # s) old new = c # ReplaceAll s old new"
  by (subst ReplaceAll.simps) simp

lemmas ReplaceAll_eval = ReplaceAll_Nil ReplaceAll_match ReplaceAll_skip

lemma digits_small: "n < 10 \<Longrightarrow> digits n = [48 + n]"
  by (simp add: digits.simps)

lemma digits_large: "\<not> n < 10 \<Longrightarrow> digits n = digits (n div 10) @ [48 + n mod 10]"
  by (subst digits.simps) simp

lemmas sanitize_eval = sanitizeFilename_def sanitizeFilenameIn_def applyReplacements_def
  replacements_def ReplaceAll_single IsControl_def TrimRight_def TrimSpace_def IsSpace_def
  reWhite_def Let_def

section \<open>Properties of the sanitizer\<close>

text \<open>
  The loop over the replacement table substitutes rune by rune, whatever the order of the
  visit: no replacement text holds a rune that is a key of the table.
\<close>

lemma replacements_entry:
  assumes "(k, v) \<in> set replacements"
  shows "\<exists>kc. k = [kc] \<and> kc \<in> {58, 47, 92, 42, 63, 34, 60, 62, 124} \<and> set v \<subseteq> {32, 45, 39}"
  using assms by (auto simp: replacements_def)

lemma replacements_keys:
  "map_of replacements [c] \<noteq> None \<longleftrightarrow> c \<in> {58, 47, 92, 42, 63, 34, 60, 62, 124}"
  by (auto simp: replacements_def)

lemma concat_singletons: "concat (map (\<lambda>c. if c = k then v else [c]) xs) = xs" if "k \<notin> set xs"
  using that by (induction xs) auto

lemma applyReplacements_subst:
  assumes "set order \<subseteq> set replacements"
  shows "applyReplacements order name =
           concat (map (\<lambda>c. case map_of order [c] of Some v \<Rightarrow> v | None \<Rightarrow> [c]) name)"
  using assms
proof (induction order rule: rev_induct)
  case Nil
  show ?case by (simp add: applyReplacements_def)
next
  case (snoc e order)
  obtain k v where e: "e = (k, v)"
    by (cases e)
  from snoc.prems e obtain kc where k: "k = [kc]"
    and kc: "kc \<in> {58, 47, 92, 42, 63, 34, 60, 62, 124}"
    using replacements_entry [of k v] by auto
  have sub: "set order \<subseteq> set replacements"
    using snoc.prems by simp
  have pointwise:
    "concat (map (\<lambda>c. if c = kc then v else [c])
        (case map_of order [c] of Some v \<Rightarrow> v | None \<Rightarrow> [c]))
     = (case map_of (order @ [e]) [c] of Some v \<Rightarrow> v | None \<Rightarrow> [c])" for c
  proof (cases "map_of order [c]")
    case None
    then show ?thesis
      by (auto simp: e k map_add_def)
  next
    case (Some w)
    then have "([c], w) \<in> set order"
      by (rule map_of_SomeD)
    with sub have "set w \<subseteq> {32, 45, 39}"
      using replacements_entry [of "[c]" w] by auto
    with kc have "kc \<notin> set w"
      by auto
    then show ?thesis
      using Some by (simp add: concat_singletons map_add_def)
  qed
  have "applyReplacements (order @ [e]) name = ReplaceAll (applyReplacements order name) k v"
    by (simp add: applyReplacements_def e)
  also have "\<dots> = concat (map (\<lambda>c. concat (map (\<lambda>c. if c = kc then v else [c])
        (case map_of order [c] of Some v \<Rightarrow> v | None \<Rightarrow> [c]))) name)"
    by (simp only: snoc.IH [OF sub] k ReplaceAll_single concat_map_concat_map)
  finally show ?case
    by (simp only: pointwise)
qed

lemma sanitizeFilenameIn_any_order:
  assumes "distinct order" and "set order = set replacements"
  shows "sanitizeFilenameIn order name = sanitizeFilename name"
proof -
  have inj: "inj_on fst (set replacements)"
    by (simp add: replacements_def)
  have d1: "distinct (map fst order)"
    using assms inj by (simp add: distinct_map)
  have d2: "distinct (map fst replacements)"
    by (simp add: replacements_def)
  have "map_of order = map_of replacements"
    using map_of_inject_set [OF d1 d2] assms(2) by simp
  then have "applyReplacements order name = applyReplacements replacements name"
    using assms(2) by (simp add: applyReplacements_subst)
  then show ?thesis
    by (simp add: sanitizeFilename_def sanitizeFilenameIn_def)
qed


lemma set_collapseSpaces: "set (collapseSpaces s) \<subseteq> insert 32 (set s)"
proof (induction s rule: collapseSpaces.induct)
  case 1
  show ?case by simp
next
  case (2 c cs)
  show ?case
  proof (cases "reWhite c")
    case True
    have "set (dropWhile reWhite cs) \<subseteq> set cs"
      by (auto dest: set_dropWhileD)
    with 2(1) [OF True] True show ?thesis
      by auto
  next
    case False
    with 2(2) [OF False] show ?thesis
      by auto
  qed
qed

lemma set_TrimRight: "set (TrimRight s cutset) \<subseteq> set s"
  by (auto simp: TrimRight_def dest: set_dropWhileD)

lemma set_TrimSpace: "set (TrimSpace s) \<subseteq> set s"
  by (auto simp: TrimSpace_def dest!: set_dropWhileD)

lemma dropWhile_snoc_keeps:
  "\<not> P z \<Longrightarrow> \<exists>ys. dropWhile P (xs @ [z]) = ys @ [z]"
  by (induction xs) auto

lemma TrimSpace_ends:
  assumes "TrimSpace s \<noteq> []"
  shows "\<not> IsSpace (hd (TrimSpace s))" and "\<not> IsSpace (last (TrimSpace s))"
proof -
  define zs where "zs = dropWhile IsSpace s"
  have t: "TrimSpace s = rev (dropWhile IsSpace (rev zs))"
    by (simp add: TrimSpace_def zs_def)
  with assms have nz: "zs \<noteq> []"
    by auto
  then obtain z zs' where z: "zs = z # zs'"
    by (cases zs) auto
  have nz': "\<not> IsSpace z"
    using hd_dropWhile [of IsSpace s] nz z by (simp add: zs_def)
  obtain ys where "dropWhile IsSpace (rev zs' @ [z]) = ys @ [z]"
    using dropWhile_snoc_keeps [of IsSpace z "rev zs'"] nz' by blast
  then show "\<not> IsSpace (hd (TrimSpace s))"
    using nz' by (simp add: t z)
  have "dropWhile IsSpace (rev zs) \<noteq> []"
    using assms t by simp
  then have "\<not> IsSpace (hd (dropWhile IsSpace (rev zs)))"
    by (rule hd_dropWhile)
  then show "\<not> IsSpace (last (TrimSpace s))"
    using assms t by (simp add: last_rev)
qed

lemma sanitizeFilename_clean:
  shows "set (sanitizeFilename name) \<inter> {58, 47, 92, 42, 63, 34, 60, 62, 124} = {}"
    and "\<forall>r \<in> set (sanitizeFilename name). \<not> IsControl r"
    and "sanitizeFilename name \<noteq> [] \<Longrightarrow>
           \<not> IsSpace (hd (sanitizeFilename name)) \<and> \<not> IsSpace (last (sanitizeFilename name))"
proof -
  define a where "a = applyReplacements replacements name"
  define b where "b = filter (\<lambda>r. \<not> IsControl r) a"
  define c where "c = collapseSpaces (TrimRight b [32, 46])"
  have san: "sanitizeFilename name = TrimSpace c"
    by (simp add: sanitizeFilename_def sanitizeFilenameIn_def a_def b_def c_def)
  have a_keys: "set a \<inter> {58, 47, 92, 42, 63, 34, 60, 62, 124} = {}"
  proof -
    have "set (case map_of replacements [x] of Some v \<Rightarrow> v | None \<Rightarrow> [x])
            \<inter> {58, 47, 92, 42, 63, 34, 60, 62, 124} = {}" for x
    proof (cases "map_of replacements [x]")
      case None
      then show ?thesis
        using replacements_keys [of x] by auto
    next
      case (Some w)
      then have "([x], w) \<in> set replacements"
        by (rule map_of_SomeD)
      then have "set w \<subseteq> {32, 45, 39}"
        using replacements_entry [of "[x]" w] by auto
      then show ?thesis
        using Some by auto
    qed
    then show ?thesis
      unfolding a_def applyReplacements_subst [OF subset_refl] by auto
  qed
  have c_sub: "set c \<subseteq> insert 32 (set b)"
    unfolding c_def using set_collapseSpaces [of "TrimRight b [32, 46]"] set_TrimRight [of b "[32, 46]"]
    by auto
  have b_sub: "set b \<subseteq> set a" and b_ctl: "\<forall>r \<in> set b. \<not> IsControl r"
    by (auto simp: b_def)
  show "set (sanitizeFilename name) \<inter> {58, 47, 92, 42, 63, 34, 60, 62, 124} = {}"
    using a_keys b_sub c_sub set_TrimSpace [of c] unfolding san by auto
  have "\<not> IsControl 32"
    by (simp add: IsControl_def)
  then show "\<forall>r \<in> set (sanitizeFilename name). \<not> IsControl r"
    using b_ctl c_sub set_TrimSpace [of c] unfolding san by auto
  show "\<not> IsSpace (hd (sanitizeFilename name)) \<and> \<not> IsSpace (last (sanitizeFilename name))"
    if "sanitizeFilename name \<noteq> []"
    using that TrimSpace_ends [of c] unfolding san by simp
qed

section \<open>Properties of the file operations\<close>

lemma os_Stat_simps [simp]:
  "fst (os_Stat E p s) =
     (if stat_refused E p then Inl ErrOther
      else case disk s p of None \<Rightarrow> Inl ErrNotExist | Some f \<Rightarrow> Inr f)"
  "snd (os_Stat E p s) = called (SysStat p) s"
  by (simp_all add: os_Stat_def)

lemma called_simps [simp]:
  "disk (called c s) = disk s"
  "trace (called c s) = trace s @ [c]"
  by (simp_all add: called_def)

lemma os_Remove_ok:
  "fst (os_Remove E p s) = (disk s p \<noteq> None \<and> \<not> remove_fails E p)"
  by (simp add: os_Remove_def split: option.splits)

lemma os_Remove_disk:
  "disk (snd (os_Remove E p s)) =
     (if fst (os_Remove E p s) then (disk s)(p := None) else disk s)"
  by (simp add: os_Remove_def split: option.splits)


lemma os_Rename_ok:
  "fst (os_Rename E a b s) = (disk s a \<noteq> None \<and> \<not> rename_fails E a b)"
  by (simp add: os_Rename_def split: option.splits)

lemma os_Rename_disk:
  "disk (snd (os_Rename E a b s)) =
     (if fst (os_Rename E a b s) then ((disk s)(a := None))(b := disk s a) else disk s)"
  by (simp add: os_Rename_def split: option.splits)

lemma os_MkdirAll_simps [simp]:
  "fst (os_MkdirAll E p s) = (\<not> mkdir_fails E p)"
  "disk (snd (os_MkdirAll E p s)) = disk s"
  by (simp_all add: os_MkdirAll_def)

text \<open>\<^verbatim>\<open>copyFile\<close> touches no path but its destination.\<close>

lemma copyFile_frame:
  "p \<noteq> dst \<Longrightarrow> disk (snd (copyFile E src dst s)) p = disk s p"
  by (auto simp: copyFile_def os_Open_def os_Create_def io_Copy_def os_Chmod_def
        os_Remove_def os_Stat_def called_def Let_def
      split: option.splits prod.splits if_splits copy_result.splits sum.splits)

text \<open>What \<^verbatim>\<open>copyFile\<close> leaves at the destination when nothing is refused.\<close>

lemma copyFile_done:
  assumes "disk s src = Some f" and "src \<noteq> dst"
    and "\<not> open_fails E src" and "\<not> create_fails E dst"
    and "copy_outcome E src dst = CopyComplete \<or> copy_outcome E src dst = CopyShort n"
  shows "fst (copyFile E src dst s) = None"
    and "\<exists>d. disk (snd (copyFile E src dst s)) dst = Some d
           \<and> data d = (if copy_outcome E src dst = CopyComplete then data f
                        else take n (data f))"
  using assms
  by (auto simp: copyFile_def os_Open_def os_Create_def io_Copy_def os_Chmod_def
        os_Stat_def called_def Let_def
      split: option.splits)

text \<open>\<^verbatim>\<open>moveFile\<close> with its intermediate states written out.\<close>

lemma moveFile_unfold:
  "moveFile E src dst s =
     (if fst (os_Rename E src dst s) then (None, snd (os_Rename E src dst s))
      else
        let c = copyFile E src dst (snd (os_Rename E src dst s));
            s4 = called (SysStat dst) (called (SysStat src) (snd c))
        in
        if fst c \<noteq> None then c
        else if stat_refused E dst then (Some VerifyStatFailed, s4)
        else
          (case disk (snd c) dst of
             None \<Rightarrow> (Some VerifyStatFailed, s4)
           | Some dinfo \<Rightarrow>
               if stat_refused E src then (Some NilInfoPanic, s4)
               else
                 (case disk (snd c) src of
                    None \<Rightarrow> (Some NilInfoPanic, s4)
                  | Some sinfo \<Rightarrow>
                      if length (data sinfo) \<noteq> length (data dinfo)
                      then (Some CopyVerificationFailed, snd (os_Remove E dst s4))
                      else if \<not> fst (os_Remove E src s4)
                      then (Some SourceRemovalFailed, snd (os_Remove E src s4))
                      else (None, snd (os_Remove E src s4)))))"
  by (simp add: moveFile_def Let_def case_prod_beta split: option.splits)



lemma moveFile_removal_refused:
  assumes "src \<noteq> dst" and "disk s src = Some f"
    and "rename_fails E src dst" and "\<not> open_fails E src" and "\<not> create_fails E dst"
    and "copy_outcome E src dst = CopyComplete" and "remove_fails E src"
    and "\<not> stat_refused E src" and "\<not> stat_refused E dst"
  shows "fst (moveFile E src dst s) = Some SourceRemovalFailed"
    and "disk (snd (moveFile E src dst s)) src = Some f"
    and "\<exists>d. disk (snd (moveFile E src dst s)) dst = Some d \<and> data d = data f"
proof -
  define s1 where "s1 = snd (os_Rename E src dst s)"
  define c where "c = copyFile E src dst s1"
  have nr: "\<not> fst (os_Rename E src dst s)"
    using assms by (simp add: os_Rename_ok)
  then have d1: "disk s1 = disk s"
    by (simp add: s1_def os_Rename_disk)
  have c_ok: "fst c = None"
    unfolding c_def using assms d1 by (intro copyFile_done(1) [of s1 src f dst E 0]) simp_all
  obtain d where d: "disk (snd c) dst = Some d" "data d = data f"
    using copyFile_done(2) [of s1 src f dst E 0] assms d1 by (auto simp: c_def)
  have src2: "disk (snd c) src = Some f"
    using assms d1 by (simp add: c_def copyFile_frame)
  have mv: "moveFile E src dst s =
      (Some SourceRemovalFailed,
       snd (os_Remove E src (called (SysStat dst) (called (SysStat src) (snd c)))))"
    using nr c_ok d src2 assms(7,8,9)
    by (simp add: moveFile_unfold Let_def c_def [symmetric] s1_def [symmetric] os_Remove_ok)
  show "fst (moveFile E src dst s) = Some SourceRemovalFailed"
    by (simp add: mv)
  show "disk (snd (moveFile E src dst s)) src = Some f"
    using src2 assms(7) by (simp add: mv os_Remove_disk os_Remove_ok)
  show "\<exists>d. disk (snd (moveFile E src dst s)) dst = Some d \<and> data d = data f"
    using d assms(7) by (simp add: mv os_Remove_disk os_Remove_ok)
qed

text \<open>
  \<^verbatim>\<open>Execute\<close> on a live run, with its intermediate states written out. The source
  counts as missing only when its stat reports "does not exist"; the destination counts
  as present only when its stat succeeds.
\<close>

lemma Execute_live_unfold:
  "Execute E op False s =
     (let result = \<lparr>res_Operation = op, Success = False, Skipped = False,
                    Error = None, Message = []\<rparr>;
          s1 = called (SysStat (Source op)) s;
          s2 = called (SysStat (Destination op)) s1;
          s3 = snd (os_MkdirAll E (Dir (Destination op)) s2);
          r = (if Mode op = ModeCopy then copyFile E (Source op) (Destination op) s3
               else if Mode op = ModeMove then moveFile E (Source op) (Destination op) s3
               else (Some UnknownOperationMode, s3))
      in if disk s (Source op) = None \<and> \<not> stat_refused E (Source op)
         then (result\<lparr>Error := Some SourceMissing\<rparr>, s1)
         else if disk s (Destination op) \<noteq> None \<and> \<not> stat_refused E (Destination op) then
           (result\<lparr>Skipped := True, Success := True,
                   Message := str ''destination already exists, skipped''\<rparr>, s2)
         else if mkdir_fails E (Dir (Destination op)) then
           (result\<lparr>Error := Some MkdirFailed\<rparr>, s3)
         else if fst r \<noteq> None then (result\<lparr>Error := fst r\<rparr>, snd r)
         else (result\<lparr>Success := True, Message := Mode op @ str '' completed''\<rparr>, snd r))"
  by (auto simp: Execute_def Let_def case_prod_beta IsNotExist_def ErrIsNil_def
      split: option.splits)

lemma Execute_existing_destination:
  assumes "disk s (Destination op) \<noteq> None" and "\<not> stat_refused E (Destination op)"
  shows "disk (snd (Execute E op False s)) = disk s"
    and "fst (Execute E op False s) =
          (if disk s (Source op) = None \<and> \<not> stat_refused E (Source op)
           then \<lparr>res_Operation = op, Success = False, Skipped = False,
                 Error = Some SourceMissing, Message = []\<rparr>
           else \<lparr>res_Operation = op, Success = True, Skipped = True, Error = None,
                 Message = str ''destination already exists, skipped''\<rparr>)"
  using assms by (simp_all add: Execute_live_unfold Let_def)

section \<open>Properties of plan compilation\<close>

lemma Join_eval:
  "Join (str ''/out'') (str ''Show A/Season 1/S01E03 - Pilot.mkv'')
     = str ''/out/Show A/Season 1/S01E03 - Pilot.mkv''"
  by (simp add: Join_def Clean_def)

text \<open>The approval prompts do not look at the previews they are given.\<close>

lemma PromptMovie_previews:
  "PromptMovie lc p movie previews = PromptMovie lc p movie previews'"
  by (simp add: PromptMovie_def)

lemma PromptShow_previews:
  "PromptShow lc p sh n previews = PromptShow lc p sh n' previews'"
  by (simp add: PromptShow_def)

lemma length_previewOperations [simp]:
  "length (previewOperations config previews) = length previews"
  by (simp add: previewOperations_def)

text \<open>
  Two runs of a loop, under configurations that agree on the approval flags and whose
  previews are related entity by entity, ask the same prompts, leave the prompter in
  the same state and return related operations.
\<close>

lemma moviesLoop_rel:
  assumes "AutoApprove config' = AutoApprove config" and "ScriptMode config' = ScriptMode config"
    and "\<forall>movie \<in> set movies.
          list_all2 R
            (previewOperations config
               (moviePreviews lc config formatter content sel lo movie))
            (previewOperations config'
               (moviePreviews lc config' formatter content sel lo movie))"
    and "list_all2 R acc acc'"
  shows "snd (moviesLoop lc config formatter content sel lo movies acc p)
           = snd (moviesLoop lc config' formatter content sel lo movies acc' p)
       \<and> rel_sum (=) (list_all2 R)
           (fst (moviesLoop lc config formatter content sel lo movies acc p))
           (fst (moviesLoop lc config' formatter content sel lo movies acc' p))"
  using assms(3,4)
proof (induction movies arbitrary: acc acc' p)
  case Nil
  then show ?case by simp
next
  case (Cons movie movies)
  let ?pv = "moviePreviews lc config formatter content sel lo movie"
  let ?pv' = "moviePreviews lc config' formatter content sel lo movie"
  have rest: "\<forall>movie \<in> set movies.
          list_all2 R
            (previewOperations config
               (moviePreviews lc config formatter content sel lo movie))
            (previewOperations config'
               (moviePreviews lc config' formatter content sel lo movie))"
    using Cons.prems(1) by simp
  have app: "list_all2 R (acc @ previewOperations config ?pv) (acc' @ previewOperations config' ?pv')"
    using Cons.prems by (simp add: list_all2_appendI)
  note IH = Cons.IH [OF rest]
  obtain r q where "PromptMovie lc p movie [] = (r, q)"
    by (cases "PromptMovie lc p movie []")
  then have pm: "PromptMovie lc p movie pvs = (r, q)" for pvs
    using PromptMovie_previews [of lc p movie pvs "[]"] by simp
  show ?case
  proof (cases r)
    case (Inl e)
    with pm assms(1,2) IH [OF Cons.prems(2)] IH [OF app] show ?thesis
      by (auto simp: Let_def)
  next
    case (Inr b)
    with pm assms(1,2) IH [OF Cons.prems(2)] IH [OF app] show ?thesis
      by (cases b) (auto simp: Let_def)
  qed
qed

lemma showsLoop_rel:
  assumes "AutoApprove config' = AutoApprove config" and "ScriptMode config' = ScriptMode config"
    and "\<forall>sh \<in> set shs.
          list_all2 R
            (previewOperations config
               (showPreviews lc config formatter content sel lo sh))
            (previewOperations config'
               (showPreviews lc config' formatter content sel lo sh))"
    and "list_all2 R acc acc'"
  shows "snd (showsLoop lc config formatter content sel lo shs acc p)
           = snd (showsLoop lc config' formatter content sel lo shs acc' p)
       \<and> rel_sum (=) (list_all2 R)
           (fst (showsLoop lc config formatter content sel lo shs acc p))
           (fst (showsLoop lc config' formatter content sel lo shs acc' p))"
  using assms(3,4)
proof (induction shs arbitrary: acc acc' p)
  case Nil
  then show ?case by simp
next
  case (Cons sh shs)
  let ?pv = "showPreviews lc config formatter content sel lo sh"
  let ?pv' = "showPreviews lc config' formatter content sel lo sh"
  have rest: "\<forall>sh \<in> set shs.
          list_all2 R
            (previewOperations config
               (showPreviews lc config formatter content sel lo sh))
            (previewOperations config'
               (showPreviews lc config' formatter content sel lo sh))"
    using Cons.prems(1) by simp
  have here: "list_all2 R (previewOperations config ?pv) (previewOperations config' ?pv')"
    using Cons.prems(1) by simp
  then have len: "length ?pv' = length ?pv"
    by (auto dest: list_all2_lengthD)
  have app: "list_all2 R (acc @ previewOperations config ?pv) (acc' @ previewOperations config' ?pv')"
    using Cons.prems(2) here by (simp add: list_all2_appendI)
  note IH = Cons.IH [OF rest]
  obtain r q where "PromptShow lc p sh 0 [] = (r, q)"
    by (cases "PromptShow lc p sh 0 []")
  then have pm: "PromptShow lc p sh n pvs = (r, q)" for n pvs
    using PromptShow_previews [of lc p sh n pvs 0 "[]"] by simp
  show ?case
  proof (cases r)
    case (Inl e)
    with pm len assms(1,2) IH [OF Cons.prems(2)] IH [OF app] show ?thesis
      by (auto simp: Let_def)
  next
    case (Inr b)
    with pm len assms(1,2) IH [OF Cons.prems(2)] IH [OF app] show ?thesis
      by (cases b) (auto simp: Let_def)
  qed
qed


lemma getOutputPath_no_mapping:
  "getOutputPath lc (config\<lparr>PathMapSrc := a, PathMapDst := b\<rparr>) content lo filePath
     = getOutputPath lc config content lo filePath"
  by (simp add: getOutputPath_def split: option.splits)

lemma set_selectedFiles: "set (selectedFiles lc sel fs) \<subseteq> set fs"
  by (auto simp: selectedFiles_def)

lemma list_all2_map_same:
  "(\<And>x. x \<in> set xs \<Longrightarrow> R (f x) (g x)) \<Longrightarrow> list_all2 R (map f xs) (map g xs)"
  by (simp add: list_all2_map1 list_all2_map2 list_all2_same)

lemma list_all2_concat_same:
  "(\<And>x. x \<in> set xs \<Longrightarrow> list_all2 R (f x) (g x)) \<Longrightarrow>
     list_all2 R (concat (map f xs)) (concat (map g xs))"
  by (induction xs) (simp_all add: list_all2_appendI)

text \<open>
  Which entities reach an approval prompt: a show only with at least one preview, and,
  when locations are selected, a movie only with at least one preview.
\<close>

lemma askYesNoAll_prompted: "prompted (snd (askYesNoAll lc p)) = prompted p"
  by (simp add: askYesNoAll_def Let_def split: list.splits)

lemma PromptShow_prompted:
  "prompted (snd (PromptShow lc p sh n pvs)) = prompted p @ [CalledPromptShow (ID (show_Metadata sh))]"
  by (simp add: PromptShow_def Let_def askYesNoAll_prompted)

lemma PromptMovie_prompted:
  "prompted (snd (PromptMovie lc p movie pvs))
     = prompted p @ [CalledPromptMovie (ID (movie_Metadata movie))]"
  by (simp add: PromptMovie_def Let_def askYesNoAll_prompted)

lemma showsLoop_prompted:
  "set (prompted (snd (showsLoop lc config formatter content sel lo shs acc p)))
     \<subseteq> set (prompted p)
       \<union> {CalledPromptShow (ID (show_Metadata sh)) | sh.
            sh \<in> set shs \<and> showPreviews lc config formatter content sel lo sh \<noteq> []}"
proof (induction shs arbitrary: acc p)
  case Nil
  show ?case by simp
next
  case (Cons sh shs)
  let ?pv = "showPreviews lc config formatter content sel lo sh"
  obtain r q where pm: "PromptShow lc p sh (length ?pv) ?pv = (r, q)"
    by (cases "PromptShow lc p sh (length ?pv) ?pv")
  then have q: "prompted q = prompted p @ [CalledPromptShow (ID (show_Metadata sh))]"
    using PromptShow_prompted [of lc p sh "length ?pv" ?pv] by simp
  show ?case
  proof (cases "?pv = []")
    case True
    then show ?thesis
      using Cons.IH [of acc p] by (auto simp: Let_def)
  next
    case False
    show ?thesis
    proof (cases r)
      case (Inl e)
      with pm q False show ?thesis
        using Cons.IH [of acc p] Cons.IH [of "acc @ previewOperations config ?pv" p]
        by (auto simp: Let_def)
    next
      case (Inr b)
      with pm q False show ?thesis
        using Cons.IH [of acc p] Cons.IH [of "acc @ previewOperations config ?pv" p]
          Cons.IH [of acc q] Cons.IH [of "acc @ previewOperations config ?pv" q]
        by (cases b) (auto simp: Let_def)
    qed
  qed
qed

lemma fileInLocations_selected:
  "fileInLocations lc fs locs \<Longrightarrow> selectedFiles lc (Some locs) fs \<noteq> []"
  by (induction fs) (auto simp: selectedFiles_def split: if_splits)

lemma moviesLoop_prompted_selected:
  "set (prompted (snd (moviesLoop lc config formatter content (Some locs) lo movies acc p)))
     \<subseteq> set (prompted p)
       \<union> {CalledPromptMovie (ID (movie_Metadata movie)) | movie.
            movie \<in> set movies
            \<and> moviePreviews lc config formatter content (Some locs) lo movie \<noteq> []}"
proof (induction movies arbitrary: acc p)
  case Nil
  show ?case by simp
next
  case (Cons movie movies)
  let ?pv = "moviePreviews lc config formatter content (Some locs) lo movie"
  obtain r q where pm: "PromptMovie lc p movie ?pv = (r, q)"
    by (cases "PromptMovie lc p movie ?pv")
  then have q: "prompted q = prompted p @ [CalledPromptMovie (ID (movie_Metadata movie))]"
    using PromptMovie_prompted [of lc p movie ?pv] by simp
  show ?case
  proof (cases "fileInLocations lc (movie_Files movie) locs")
    case False
    then show ?thesis
      using Cons.IH [of acc p] by auto
  next
    case True
    then have ne: "?pv \<noteq> []"
      by (simp add: moviePreviews_def fileInLocations_selected)
    show ?thesis
    proof (cases r)
      case (Inl e)
      with pm q ne True show ?thesis
        using Cons.IH [of acc p] Cons.IH [of "acc @ previewOperations config ?pv" p]
        by (auto simp: Let_def)
    next
      case (Inr b)
      with pm q ne True show ?thesis
        using Cons.IH [of acc p] Cons.IH [of "acc @ previewOperations config ?pv" p]
          Cons.IH [of acc q] Cons.IH [of "acc @ previewOperations config ?pv" q]
        by (cases b) (auto simp: Let_def)
    qed
  qed
qed

lemma example_plan:
  "fst (generateOperations id unattended_config (NewFormatter [] []) (answers [])
          (show_library (str ''/out/Show A/Season 1/S01E03 - Pilot.mkv'')) None [])
     = Inr [\<lparr>Source = str ''/out/Show A/Season 1/S01E03 - Pilot.mkv'',
             Destination = str ''/out/Show A/Season 1/S01E03 - Pilot.mkv'',
             Mode = ModeMove\<rparr>]"
  by (simp add: generateOperations_def show_library_def show_a_def season_a_def episode_a_def
      file_a_def blank_item_def unattended_config_def NewFormatter_def SectionTypeShow_def
      SectionTypeMovie_def showPreviews_def selectedFiles_def episodePreview_def
      previewOperations_def getOutputPath_def GetExtension_def Ext_def Join_def Clean_def
      FormatEpisode_def DefaultTVFormat_def sanitize_eval ReplaceAll_eval
      Sprintf_d_def Sprintf_02d_def digits_small digits_large)

section \<open>Claims\<close>

text \<open>
  C8. For every input string, \<^verbatim>\<open>escapeCmdPath\<close> returns exactly the string in which
  every percent sign and every caret of the input is doubled and each ampersand,
  less-than, greater-than, pipe and exclamation mark of the input has a single caret in
  front; the carets brought in for these five characters are not doubled, since the
  caret pass runs before them.
\<close>

theorem escapeCmdPath_refines_spec:
  "escapeCmdPath path = batch_escape_spec path"
proof -
  have "escapeCmdPath path = concat (map (\<lambda>c. batch_escape_char c) path)"
    unfolding escapeCmdPath_def Let_def
    apply (simp add: ReplaceAll_single concat_map_concat_map)
    apply (intro arg_cong [where f = concat] map_cong refl)
    apply (simp add: batch_escape_char_def)
    done
  then show ?thesis
    by (simp add: batch_escape_spec_def)
qed

text \<open>
  C4. For every operation, every operating system and every state of the file system,
  \<^verbatim>\<open>Execute\<close> with \<^verbatim>\<open>dryRun = true\<close> returns a result with \<^verbatim>\<open>Success = true\<close>
  and makes no call to the file system: the state it hands back is the one it was given,
  trace of calls included, whether or not the source exists.
\<close>

theorem Execute_dry_run_no_access:
  "Execute E op True s =
     (\<lparr>res_Operation = op, Success = True, Skipped = False, Error = None,
       Message = str ''dry run - no changes made''\<rparr>, s)"
  by (simp add: Execute_def)



text \<open>
  C1 (as amended). On a live run of an operation whose destination exists, in the sense
  of the code (\<^verbatim>\<open>os.Stat\<close> of the destination succeeds), \<^verbatim>\<open>Execute\<close> changes no
  file. It fails with "source file does not exist" when the stat of the source reports
  that the source does not exist; in every other case (the source exists, or its stat
  fails with another error) it reports the operation as skipped and successful. So a run
  of \<^verbatim>\<open>BatchExecute\<close> over a list whose destinations all exist changes no file, and
  reports each operation as skipped, or as failed for a missing source (as after a move).
\<close>

theorem BatchExecute_existing_destinations:
  assumes "\<forall>op \<in> set operations.
             disk s (Destination op) \<noteq> None \<and> \<not> stat_refused E (Destination op)"
  shows "disk (snd (BatchExecute E operations False s)) = disk s
       \<and> fst (BatchExecute E operations False s) =
           map (\<lambda>op. if disk s (Source op) = None \<and> \<not> stat_refused E (Source op)
                     then \<lparr>res_Operation = op, Success = False, Skipped = False,
                           Error = Some SourceMissing, Message = []\<rparr>
                     else \<lparr>res_Operation = op, Success = True, Skipped = True,
                           Error = None,
                           Message = str ''destination already exists, skipped''\<rparr>)
             operations"
  using assms
proof (induction operations arbitrary: s)
  case Nil
  show ?case by simp
next
  case (Cons op operations)
  define s1 where "s1 = snd (Execute E op False s)"
  have dst: "disk s (Destination op) \<noteq> None" and seen: "\<not> stat_refused E (Destination op)"
    using Cons.prems by simp_all
  have d1: "disk s1 = disk s"
    unfolding s1_def using dst seen by (rule Execute_existing_destination(1))
  have rest: "\<forall>op \<in> set operations.
      disk s1 (Destination op) \<noteq> None \<and> \<not> stat_refused E (Destination op)"
    using Cons.prems d1 by simp
  have step: "BatchExecute E (op # operations) False s =
      (fst (Execute E op False s) # fst (BatchExecute E operations False s1),
       snd (BatchExecute E operations False s1))"
    by (simp add: s1_def case_prod_beta Let_def)
  show ?case
    unfolding step
    using Cons.IH [OF rest] Execute_existing_destination(2) [OF dst seen] d1
    by simp
qed

theorem BatchExecute_existing_destinations_witness:
  "disk (snd (BatchExecute (blind_os (str ''/src/f/a.mkv'')) [move_a, move_under_file] False
            (one_file (str ''/out/a.mkv''))))
     = disk (one_file (str ''/out/a.mkv''))
   \<and> map Error (fst (BatchExecute (blind_os (str ''/src/f/a.mkv'')) [move_a, move_under_file]
            False (one_file (str ''/out/a.mkv''))))
     = [Some SourceMissing, None]
   \<and> map Skipped (fst (BatchExecute (blind_os (str ''/src/f/a.mkv'')) [move_a, move_under_file]
            False (one_file (str ''/out/a.mkv''))))
     = [False, True]"
proof -
  have pre: "\<forall>op \<in> set [move_a, move_under_file].
      disk (one_file (str ''/out/a.mkv'')) (Destination op) \<noteq> None
      \<and> \<not> stat_refused (blind_os (str ''/src/f/a.mkv'')) (Destination op)"
    by (simp add: move_a_def move_under_file_def one_file_def blind_os_def willing_os_def)
  have src: "disk (one_file (str ''/out/a.mkv'')) (Source move_a) = None"
    "\<not> stat_refused (blind_os (str ''/src/f/a.mkv'')) (Source move_a)"
    "stat_refused (blind_os (str ''/src/f/a.mkv'')) (Source move_under_file)"
    by (simp_all add: move_a_def move_under_file_def one_file_def blind_os_def willing_os_def)
  from BatchExecute_existing_destinations [OF pre] src
  show ?thesis by simp
qed

text \<open>
  The claim as it stands fails: the destination exists, the source does not (the state a
  completed move leaves), and the operation is reported as failed, not as skipped.
\<close>

theorem Execute_existing_destination_counterexample:
  "disk (one_file (str ''/out/a.mkv'')) (Destination move_a) \<noteq> None
   \<and> Skipped (fst (Execute willing_os move_a False (one_file (str ''/out/a.mkv'')))) = False
   \<and> Success (fst (Execute willing_os move_a False (one_file (str ''/out/a.mkv'')))) = False
   \<and> Error (fst (Execute willing_os move_a False (one_file (str ''/out/a.mkv''))))
       = Some SourceMissing"
  by (simp add: Execute_live_unfold Let_def move_a_def one_file_def willing_os_def)

text \<open>
  C3 (as amended). On a live move where the rename is refused, the copy is complete, the
  sizes are read and agree, and the removal of the source is refused, \<^verbatim>\<open>Execute\<close>
  reports the operation as failed: \<^verbatim>\<open>Success\<close> and \<^verbatim>\<open>Skipped\<close> are false and the
  error is "copied successfully but failed to remove source". The source file is as it
  was and the destination holds its bytes.
\<close>

theorem Execute_move_removal_refused:
  assumes "Mode op = ModeMove"
    and "disk s (Source op) = Some f" and "disk s (Destination op) = None"
    and "\<not> stat_refused E (Source op)" and "\<not> stat_refused E (Destination op)"
    and "\<not> mkdir_fails E (Dir (Destination op))"
    and "rename_fails E (Source op) (Destination op)"
    and "\<not> open_fails E (Source op)" and "\<not> create_fails E (Destination op)"
    and "copy_outcome E (Source op) (Destination op) = CopyComplete"
    and "remove_fails E (Source op)"
  shows "fst (Execute E op False s) =
           \<lparr>res_Operation = op, Success = False, Skipped = False,
            Error = Some SourceRemovalFailed, Message = []\<rparr>
       \<and> disk (snd (Execute E op False s)) (Source op) = Some f
       \<and> (\<exists>d. disk (snd (Execute E op False s)) (Destination op) = Some d
              \<and> data d = data f)"
proof -
  define s3 where
    "s3 = snd (os_MkdirAll E (Dir (Destination op))
            (called (SysStat (Destination op)) (called (SysStat (Source op)) s)))"
  have ne: "Source op \<noteq> Destination op"
    using assms(2,3) by auto
  have d3: "disk s3 (Source op) = Some f"
    using assms(2) by (simp add: s3_def)
  note mv = moveFile_removal_refused [OF ne d3 assms(7,8,9,10,11,4,5)]
  have ex: "Execute E op False s =
      (\<lparr>res_Operation = op, Success = False, Skipped = False,
        Error = Some SourceRemovalFailed, Message = []\<rparr>,
       snd (moveFile E (Source op) (Destination op) s3))"
    using assms(1,2,3,6) mv(1)
    by (simp add: Execute_live_unfold Let_def s3_def [symmetric] ModeMove_def ModeCopy_def)
  show ?thesis
    using mv(2,3) by (simp add: ex)
qed

theorem Execute_move_removal_refused_witness:
  "fst (Execute (keeps_os (str ''/src/a.mkv'')) move_a False (one_file (str ''/src/a.mkv'')))
     = \<lparr>res_Operation = move_a, Success = False, Skipped = False,
        Error = Some SourceRemovalFailed, Message = []\<rparr>
   \<and> disk (snd (Execute (keeps_os (str ''/src/a.mkv'')) move_a False
        (one_file (str ''/src/a.mkv'')))) (str ''/src/a.mkv'')
     = Some \<lparr>data = [1, 2, 3], perm = 420\<rparr>"
proof -
  have "Mode move_a = ModeMove"
    and "disk (one_file (str ''/src/a.mkv'')) (Source move_a)
           = Some \<lparr>data = [1, 2, 3], perm = 420\<rparr>"
    and "disk (one_file (str ''/src/a.mkv'')) (Destination move_a) = None"
    and "\<not> stat_refused (keeps_os (str ''/src/a.mkv'')) (Source move_a)"
    and "\<not> stat_refused (keeps_os (str ''/src/a.mkv'')) (Destination move_a)"
    and "\<not> mkdir_fails (keeps_os (str ''/src/a.mkv'')) (Dir (Destination move_a))"
    and "rename_fails (keeps_os (str ''/src/a.mkv'')) (Source move_a) (Destination move_a)"
    and "\<not> open_fails (keeps_os (str ''/src/a.mkv'')) (Source move_a)"
    and "\<not> create_fails (keeps_os (str ''/src/a.mkv'')) (Destination move_a)"
    and "copy_outcome (keeps_os (str ''/src/a.mkv'')) (Source move_a) (Destination move_a)
           = CopyComplete"
    and "remove_fails (keeps_os (str ''/src/a.mkv'')) (Source move_a)"
    by (simp_all add: move_a_def one_file_def keeps_os_def cross_device_os_def willing_os_def)
  from Execute_move_removal_refused [OF this]
  show ?thesis by (simp add: move_a_def)
qed

text \<open>
  The claim as it stands fails: with the copy verified and the removal of the source
  refused, the result is not classified as a success.
\<close>

theorem Execute_move_removal_refused_counterexample:
  "Success (fst (Execute (keeps_os (str ''/src/a.mkv'')) move_a False
      (one_file (str ''/src/a.mkv'')))) = False
   \<and> Error (fst (Execute (keeps_os (str ''/src/a.mkv'')) move_a False
      (one_file (str ''/src/a.mkv'')))) = Some SourceRemovalFailed"
  by (simp add: Execute_def moveFile_def copyFile_def os_Stat_def os_MkdirAll_def
      os_Rename_def os_Open_def os_Create_def io_Copy_def os_Chmod_def os_Remove_def
      called_def move_a_def one_file_def keeps_os_def cross_device_os_def willing_os_def
      ModeMove_def ModeCopy_def IsNotExist_def ErrIsNil_def Let_def)

text \<open>
  C6. The output of \<^verbatim>\<open>sanitizeFilename\<close> holds none of the nine characters of the
  replacement table and no control character, and neither starts nor ends with a space
  (lemma \<open>sanitizeFilename_clean\<close>). It can end in a period: the trailing spaces and
  periods are trimmed before \<^verbatim>\<open>strings.TrimSpace\<close> runs, and \<^verbatim>\<open>TrimSpace\<close> also
  removes Unicode spaces such as the no-break space U+00A0, which the earlier trim
  leaves in place. For the name \<^verbatim>\<open>a.\<close> followed by a no-break space the result is
  \<^verbatim>\<open>a.\<close>.
\<close>

theorem sanitizeFilename_trailing_period:
  "sanitizeFilename (str ''a.'' @ [0xA0]) = str ''a.''
   \<and> last (sanitizeFilename (str ''a.'' @ [0xA0])) = of_char CHR ''.''"
  by (simp add: sanitize_eval)

text \<open>
  C7. The catalog holds one show, "Show A" of 2020, with one season of index 1 and in it
  one episode of index 3, "Pilot", whose one file is \<^verbatim>\<open>/src/Show A/ep1.mkv\<close>; the
  episode template is the default one, the mode is move, the output directory is
  \<^verbatim>\<open>/out\<close>, there is no path mapping, no location is selected and none has an output
  of its own. When the show is approved (by \<^verbatim>\<open>AutoApprove\<close>, in script mode, by an
  earlier "all", or by the answer y, yes, a or all at its prompt), the plan is the single
  operation that moves the file to \<^verbatim>\<open>/out/Show A/Season 1/S01E03 - Pilot.mkv\<close>.
\<close>

theorem show_a_plan:
  assumes "Title (show_Metadata sh) = str ''Show A''"
    and "Year (show_Metadata sh) = Some 2020"
    and "Seasons sh = [season]"
    and "Index (season_Metadata season) = Some 1"
    and "Episodes season = [episode]"
    and "Index (episode_Metadata episode) = Some 3"
    and "Title (episode_Metadata episode) = str ''Pilot''"
    and "episode_Files episode = [part]"
    and "File part = str ''/src/Show A/ep1.mkv''"
    and "SectionType (Section content) = SectionTypeShow"
    and "Shows content = [sh]"
    and "TVFormat formatter = DefaultTVFormat"
    and "cfg_Mode config = ModeMove"
    and "OutputDir config = str ''/out''"
    and "PathMapSrc config = []"
    and approved: "AutoApprove config \<or> ScriptMode config \<or> ApproveAll prompter
       \<or> (\<exists>line rest. reader prompter = line # rest
             \<and> TrimSpace (ToLower lc line) \<in> {str ''y'', str ''yes'', str ''a'', str ''all''})"
  shows "fst (generateOperations lc config formatter prompter content None [])
           = Inr [\<lparr>Source = str ''/src/Show A/ep1.mkv'',
                   Destination = str ''/out/Show A/Season 1/S01E03 - Pilot.mkv'',
                   Mode = ModeMove\<rparr>]"
proof -
  have ext: "GetExtension (File part) = str ''.mkv''"
    using assms(9) by (simp add: GetExtension_def Ext_def)
  have name: "FormatEpisode formatter (show_Metadata sh) (season_Metadata season) episode
                (str ''.mkv'') = str ''Show A/Season 1/S01E03 - Pilot.mkv''"
    using assms(1,2,4,6,7,12)
    by (simp add: FormatEpisode_def DefaultTVFormat_def sanitize_eval ReplaceAll_eval
        Sprintf_d_def Sprintf_02d_def digits_small digits_large)
  have dir: "getOutputPath lc config content [] (File part) = str ''/out''"
    using assms(14) by (simp add: getOutputPath_def)
  have pv: "showPreviews lc config formatter content None [] sh =
      [\<lparr>pv_Source = str ''/src/Show A/ep1.mkv'',
        pv_Destination = str ''/out/Show A/Season 1/S01E03 - Pilot.mkv''\<rparr>]"
    using assms(3,5,8,9,15) ext name dir Join_eval
    by (simp add: showPreviews_def selectedFiles_def episodePreview_def Let_def)
  have prompt: "\<exists>a p. PromptShow lc prompter sh n pvs = (Inr (True, a), p)" 
    if "\<not> AutoApprove config" "\<not> ScriptMode config" for n pvs
    using approved that
    by (auto simp: PromptShow_def askYesNoAll_def Let_def)
  show ?thesis
  proof (cases "\<not> AutoApprove config \<and> \<not> ScriptMode config")
    case True
    then obtain a p where "PromptShow lc prompter sh (Suc 0)
        [\<lparr>pv_Source = str ''/src/Show A/ep1.mkv'',
          pv_Destination = str ''/out/Show A/Season 1/S01E03 - Pilot.mkv''\<rparr>] = (Inr (True, a), p)"
      using prompt by blast
    with True assms(10,11,13) pv show ?thesis
      by (simp add: generateOperations_def SectionTypeShow_def SectionTypeMovie_def
          previewOperations_def)
  next
    case False
    with assms(10,11,13) pv show ?thesis
      by (auto simp: generateOperations_def SectionTypeShow_def SectionTypeMovie_def
          previewOperations_def)
  qed
qed

theorem show_a_plan_witness:
  "fst (generateOperations id unattended_config (NewFormatter [] []) (answers [])
          (show_library (str ''/src/Show A/ep1.mkv'')) None [])
     = Inr [\<lparr>Source = str ''/src/Show A/ep1.mkv'',
             Destination = str ''/out/Show A/Season 1/S01E03 - Pilot.mkv'',
             Mode = ModeMove\<rparr>]"
  by (rule show_a_plan [where sh = "show_a (str ''/src/Show A/ep1.mkv'')"
        and season = "season_a (str ''/src/Show A/ep1.mkv'')"
        and episode = "episode_a (str ''/src/Show A/ep1.mkv'')"
        and part = "file_a (str ''/src/Show A/ep1.mkv'')"])
     (simp_all add: show_a_def season_a_def episode_a_def file_a_def show_library_def
        unattended_config_def NewFormatter_def blank_item_def)

text \<open>
  C5. A show without eligible files never reaches its prompt (lemma
  \<open>showsLoop_prompted\<close>), and neither does a movie when locations are selected (lemma
  \<open>moviesLoop_prompted_selected\<close>). The loop over the movies has no test for an empty
  list of previews, though: with no location selected, a movie that has no file at all
  contributes no operation, but its prompt is called and takes an answer from the input.
\<close>

theorem fileless_movie_is_prompted:
  "generateOperations lc asking_config formatter (answers [str ''y''])
      fileless_movie_library None []
    = (Inr [], \<lparr>ApproveAll = False, reader = [], prompted = [CalledPromptMovie 7]\<rparr>)"
  by (simp add: generateOperations_def fileless_movie_library_def asking_config_def
      unattended_config_def answers_def SectionTypeMovie_def moviePreviews_def
      selectedFiles_def previewOperations_def PromptMovie_def askYesNoAll_def
      ToLower_def TrimSpace_def IsSpace_def blank_item_def Let_def)

text \<open>
  C9 (as amended). Every operation of a compiled plan has the mode of the configuration;
  its source is the path of a file of the catalog, rewritten by the path mapping when
  one is set; and its destination is the output directory resolved for that file,
  joined with the name formatted for the file's movie or episode. Source and destination
  may be the same path.
\<close>

theorem planned_destination_shape:
  assumes "fst (generateOperations lc config formatter prompter content sel lo) = Inr operations"
    and "op \<in> set operations"
  shows "Mode op = cfg_Mode config
     \<and> ((\<exists>movie \<in> set (Movies content). \<exists>part \<in> set (movie_Files movie).
            Source op = (if PathMapSrc config \<noteq> []
                         then ApplyPathMapping (File part) (PathMapSrc config) (PathMapDst config)
                         else File part)
            \<and> Destination op =
                Join (getOutputPath lc config content lo (File part))
                  (FormatMovie formatter movie (GetExtension (Source op))))
        \<or> (\<exists>sh \<in> set (Shows content). \<exists>season \<in> set (Seasons sh).
            \<exists>episode \<in> set (Episodes season). \<exists>part \<in> set (episode_Files episode).
            Source op = (if PathMapSrc config \<noteq> []
                         then ApplyPathMapping (File part) (PathMapSrc config) (PathMapDst config)
                         else File part)
            \<and> Destination op =
                Join (getOutputPath lc config content lo (File part))
                  (FormatEpisode formatter (show_Metadata sh) (season_Metadata season)
                     episode (GetExtension (Source op)))))"
    (is "?P op")
proof -
  let ?R = "\<lambda>a b. a = b \<and> ?P a"
  have movies: "\<forall>movie \<in> set (Movies content).
      list_all2 ?R
        (previewOperations config (moviePreviews lc config formatter content sel lo movie))
        (previewOperations config (moviePreviews lc config formatter content sel lo movie))"
  proof
    fix movie
    assume movie: "movie \<in> set (Movies content)"
    have one: "?R
        \<lparr>Source = pv_Source (moviePreview lc config formatter content lo movie part),
         Destination = pv_Destination (moviePreview lc config formatter content lo movie part),
         Mode = cfg_Mode config\<rparr>
        \<lparr>Source = pv_Source (moviePreview lc config formatter content lo movie part),
         Destination = pv_Destination (moviePreview lc config formatter content lo movie part),
         Mode = cfg_Mode config\<rparr>"
      if "part \<in> set (selectedFiles lc sel (movie_Files movie))" for part
    proof -
      have "part \<in> set (movie_Files movie)"
        using that set_selectedFiles by blast
      with movie show ?thesis
        by (intro conjI disjI1 bexI [of _ movie] bexI [of _ part])
           (simp_all add: moviePreview_def Let_def)
    qed
    show "list_all2 ?R
        (previewOperations config (moviePreviews lc config formatter content sel lo movie))
        (previewOperations config (moviePreviews lc config formatter content sel lo movie))"
      unfolding previewOperations_def moviePreviews_def map_map comp_def
      by (intro list_all2_map_same one)
  qed
  have tv: "\<forall>sh \<in> set (Shows content).
      list_all2 ?R
        (previewOperations config (showPreviews lc config formatter content sel lo sh))
        (previewOperations config (showPreviews lc config formatter content sel lo sh))"
  proof
    fix sh
    assume sh: "sh \<in> set (Shows content)"
    have one: "?R
        \<lparr>Source = pv_Source (episodePreview lc config formatter content lo sh season episode part),
         Destination = pv_Destination
           (episodePreview lc config formatter content lo sh season episode part),
         Mode = cfg_Mode config\<rparr>
        \<lparr>Source = pv_Source (episodePreview lc config formatter content lo sh season episode part),
         Destination = pv_Destination
           (episodePreview lc config formatter content lo sh season episode part),
         Mode = cfg_Mode config\<rparr>"
      if "season \<in> set (Seasons sh)" and "episode \<in> set (Episodes season)"
        and "part \<in> set (selectedFiles lc sel (episode_Files episode))"
      for season episode part
    proof -
      have "part \<in> set (episode_Files episode)"
        using that(3) set_selectedFiles by blast
      with sh that(1,2) show ?thesis
        by (intro conjI disjI2 bexI [of _ sh] bexI [of _ season] bexI [of _ episode]
              bexI [of _ part])
           (simp_all add: episodePreview_def Let_def)
    qed
    show "list_all2 ?R
        (previewOperations config (showPreviews lc config formatter content sel lo sh))
        (previewOperations config (showPreviews lc config formatter content sel lo sh))"
      unfolding previewOperations_def showPreviews_def map_concat map_map comp_def
      by (intro list_all2_concat_same list_all2_map_same one)
  qed
  have "rel_sum (=) (list_all2 ?R)
          (fst (generateOperations lc config formatter prompter content sel lo))
          (fst (generateOperations lc config formatter prompter content sel lo))"
    unfolding generateOperations_def
    using moviesLoop_rel [OF refl refl movies, of "[]" "[]" prompter]
      showsLoop_rel [OF refl refl tv, of "[]" "[]" prompter]
    by simp
  then have "list_all2 ?R operations operations"
    by (simp add: assms(1))
  then show ?thesis
    using assms(2) by (auto simp: list_all2_same)
qed

theorem planned_destination_shape_witness:
  "Destination \<lparr>Source = str ''/out/Show A/Season 1/S01E03 - Pilot.mkv'',
                Destination = str ''/out/Show A/Season 1/S01E03 - Pilot.mkv'',
                Mode = ModeMove\<rparr>
     = Join (getOutputPath id unattended_config
               (show_library (str ''/out/Show A/Season 1/S01E03 - Pilot.mkv'')) []
               (str ''/out/Show A/Season 1/S01E03 - Pilot.mkv''))
         (FormatEpisode (NewFormatter [] [])
            (show_Metadata (show_a (str ''/out/Show A/Season 1/S01E03 - Pilot.mkv'')))
            (season_Metadata (season_a (str ''/out/Show A/Season 1/S01E03 - Pilot.mkv'')))
            (episode_a (str ''/out/Show A/Season 1/S01E03 - Pilot.mkv''))
            (GetExtension (str ''/out/Show A/Season 1/S01E03 - Pilot.mkv'')))"
  using planned_destination_shape [OF example_plan,
      of "\<lparr>Source = str ''/out/Show A/Season 1/S01E03 - Pilot.mkv'',
           Destination = str ''/out/Show A/Season 1/S01E03 - Pilot.mkv'',
           Mode = ModeMove\<rparr>"]
  by (simp add: show_library_def show_a_def season_a_def episode_a_def file_a_def
      unattended_config_def)

text \<open>
  The claim as it stands fails: a file that already lies at its formatted path under the
  output directory is planned with its source as its destination.
\<close>

theorem source_equals_destination_counterexample:
  "fst (generateOperations id unattended_config (NewFormatter [] []) (answers [])
          (show_library (str ''/out/Show A/Season 1/S01E03 - Pilot.mkv'')) None [])
     = Inr [\<lparr>Source = str ''/out/Show A/Season 1/S01E03 - Pilot.mkv'',
             Destination = str ''/out/Show A/Season 1/S01E03 - Pilot.mkv'',
             Mode = ModeMove\<rparr>]
   \<and> Source \<lparr>Source = str ''/out/Show A/Season 1/S01E03 - Pilot.mkv'',
             Destination = str ''/out/Show A/Season 1/S01E03 - Pilot.mkv'',
             Mode = ModeMove\<rparr>
     = Destination \<lparr>Source = str ''/out/Show A/Season 1/S01E03 - Pilot.mkv'',
                    Destination = str ''/out/Show A/Season 1/S01E03 - Pilot.mkv'',
                    Mode = ModeMove\<rparr>"
  using example_plan by simp

text \<open>
  C10. Compile a plan under a configuration, and compile it again with the path mapping
  taken out. The two runs call the same prompts and leave the prompter in the same
  state; both fail or both return operations, as many in one as in the other; and
  position by position, the source of the first run is the source of the second run
  (the path of the catalog) rewritten by the mapping, while both destinations are joined
  onto the very same directory, the one resolved for the path of the catalog. Only the
  extension inside the formatted name is read from the rewritten source.
\<close>

theorem path_mapping_keeps_output_directory:
  fixes config :: Config
  defines "config0 \<equiv> config\<lparr>PathMapSrc := [], PathMapDst := []\<rparr>"
  shows
    "snd (generateOperations lc config formatter prompter content sel lo)
       = snd (generateOperations lc config0 formatter prompter content sel lo)
     \<and> rel_sum (=)
         (list_all2 (\<lambda>op op0.
            Source op = (if PathMapSrc config \<noteq> []
                         then ApplyPathMapping (Source op0) (PathMapSrc config) (PathMapDst config)
                         else Source op0)
            \<and> ((\<exists>movie \<in> set (Movies content).
                   Destination op =
                     Join (getOutputPath lc config content lo (Source op0))
                       (FormatMovie formatter movie (GetExtension (Source op)))
                   \<and> Destination op0 =
                     Join (getOutputPath lc config content lo (Source op0))
                       (FormatMovie formatter movie (GetExtension (Source op0))))
               \<or> (\<exists>sh \<in> set (Shows content). \<exists>season \<in> set (Seasons sh).
                   \<exists>episode \<in> set (Episodes season).
                   Destination op =
                     Join (getOutputPath lc config content lo (Source op0))
                       (FormatEpisode formatter (show_Metadata sh) (season_Metadata season)
                          episode (GetExtension (Source op)))
                   \<and> Destination op0 =
                     Join (getOutputPath lc config content lo (Source op0))
                       (FormatEpisode formatter (show_Metadata sh) (season_Metadata season)
                          episode (GetExtension (Source op0)))))))
         (fst (generateOperations lc config formatter prompter content sel lo))
         (fst (generateOperations lc config0 formatter prompter content sel lo))"
    (is "_ \<and> rel_sum (=) (list_all2 ?R) _ _")
proof -
  have flags: "AutoApprove config0 = AutoApprove config" "ScriptMode config0 = ScriptMode config"
    by (simp_all add: config0_def)
  have dir: "getOutputPath lc config0 content lo p = getOutputPath lc config content lo p" for p
    by (simp add: config0_def getOutputPath_no_mapping)
  have pm0: "PathMapSrc config0 = []"
    by (simp add: config0_def)
  have movies: "\<forall>movie \<in> set (Movies content).
      list_all2 ?R
        (previewOperations config (moviePreviews lc config formatter content sel lo movie))
        (previewOperations config0 (moviePreviews lc config0 formatter content sel lo movie))"
  proof
    fix movie
    assume movie: "movie \<in> set (Movies content)"
    have "?R \<lparr>Source = pv_Source (moviePreview lc config formatter content lo movie part),
              Destination = pv_Destination (moviePreview lc config formatter content lo movie part),
              Mode = cfg_Mode config\<rparr>
             \<lparr>Source = pv_Source (moviePreview lc config0 formatter content lo movie part),
              Destination = pv_Destination (moviePreview lc config0 formatter content lo movie part),
              Mode = cfg_Mode config0\<rparr>" for part
      using movie
      by (intro conjI disjI1 bexI [of _ movie])
         (simp_all add: moviePreview_def Let_def dir pm0)
    then show "list_all2 ?R
        (previewOperations config (moviePreviews lc config formatter content sel lo movie))
        (previewOperations config0 (moviePreviews lc config0 formatter content sel lo movie))"
      unfolding previewOperations_def moviePreviews_def map_map comp_def
      by (intro list_all2_map_same)
  qed
  have tv: "\<forall>sh \<in> set (Shows content).
      list_all2 ?R
        (previewOperations config (showPreviews lc config formatter content sel lo sh))
        (previewOperations config0 (showPreviews lc config0 formatter content sel lo sh))"
  proof
    fix sh
    assume sh: "sh \<in> set (Shows content)"
    have one: "?R
        \<lparr>Source = pv_Source (episodePreview lc config formatter content lo sh season episode part),
         Destination = pv_Destination
           (episodePreview lc config formatter content lo sh season episode part),
         Mode = cfg_Mode config\<rparr>
        \<lparr>Source = pv_Source (episodePreview lc config0 formatter content lo sh season episode part),
         Destination = pv_Destination
           (episodePreview lc config0 formatter content lo sh season episode part),
         Mode = cfg_Mode config0\<rparr>"
      if "season \<in> set (Seasons sh)" and "episode \<in> set (Episodes season)"
      for season episode part
      using sh that
      by (intro conjI disjI2 bexI [of _ sh] bexI [of _ season] bexI [of _ episode])
         (simp_all add: episodePreview_def Let_def dir pm0)
    show "list_all2 ?R
        (previewOperations config (showPreviews lc config formatter content sel lo sh))
        (previewOperations config0 (showPreviews lc config0 formatter content sel lo sh))"
      unfolding previewOperations_def showPreviews_def map_concat map_map comp_def
      by (intro list_all2_concat_same list_all2_map_same one)
  qed
  show ?thesis
    unfolding generateOperations_def
    using moviesLoop_rel [OF flags movies, of "[]" "[]" prompter]
      showsLoop_rel [OF flags tv, of "[]" "[]" prompter]
    by simp
qed

theorem path_mapping_keeps_output_directory_witness:
  "snd (generateOperations id
          (unattended_config\<lparr>PathMapSrc := str ''/src'', PathMapDst := str ''/mnt''\<rparr>)
          (NewFormatter [] []) (answers [])
          (show_library (str ''/src/Show A/ep1.mkv'')) None [])
     = snd (generateOperations id
          (unattended_config\<lparr>PathMapSrc := str ''/src'', PathMapDst := str ''/mnt'',
                             PathMapSrc := [], PathMapDst := []\<rparr>)
          (NewFormatter [] []) (answers [])
          (show_library (str ''/src/Show A/ep1.mkv'')) None [])"
  by (rule path_mapping_keeps_output_directory [THEN conjunct1])

end
